theory Spec2Isabelle
  imports Complex_Main "HOL-Library.Multiset"
begin

section \<open>Adaptive Metropolis: covariance estimator, scale adapter, controller\<close>

text \<open>
  A shallow embedding of \<^verbatim>\<open>kernel_hmc/proposals/adaptive_metropolis.py\<close>.

  Numbers: numpy's float64 values are modelled as reals, and sums, products, quotients
  and square roots are exact. Rounding, overflow and NaN are not represented. Where
  numpy would produce NaN or an infinity (the square root of a negative number, a
  sample covariance of fewer than two samples) the HOL functions still have a value,
  which is not the program's; the statements that depend on such a value carry the
  hypothesis that keeps the argument in range (\<open>0 \<le> nu2\<close>, \<open>0 \<le> gamma2\<close>, two samples
  or more). The logarithm and the exponential are not taken as exact: \<^verbatim>\<open>np.log\<close> and
  \<^verbatim>\<open>np.exp\<close> are parameters of the functions that call them, and what is proved of
  their results either holds of every such function, or is stated for the real \<open>ln\<close> and
  \<open>exp\<close>, or for the exponential \<open>float64_exp\<close> that underflows as float64 does.

  Arrays: a one-dimensional array is the list of its entries, a two-dimensional array
  the list of its rows. Arrays are rectangular in numpy; the shape assertions of the
  source are modelled by \<open>is_square\<close>.

  Collaborators that are not part of the file are parameters of the functions that
  call them: the rank-one Cholesky update \<^verbatim>\<open>cholupdate\<close> of the optional package
  choldate, the dense factorisation \<^verbatim>\<open>np.linalg.cholesky\<close> (which raises
  \<^verbatim>\<open>LinAlgError\<close>, here \<open>None\<close>, on an input that is not positive definite), and the
  Gaussian sampler \<^verbatim>\<open>sample_gaussian\<close>.
\<close>

subsection \<open>Arrays\<close>

type_synonym vec = "real list"
type_synonym mat = "real list list"

text \<open>\<^verbatim>\<open>np.zeros(D)\<close> and \<^verbatim>\<open>np.eye(D)\<close>.\<close>

definition zeros :: "nat \<Rightarrow> vec" where
  "zeros D = replicate D 0"

definition eye :: "nat \<Rightarrow> mat" where
  "eye D = map (\<lambda>i. map (\<lambda>j. if i = j then 1 else 0) [0..<D]) [0..<D]"

text \<open>Scalar times array, and the elementwise sum and difference of two arrays of one shape.\<close>

definition vscale :: "real \<Rightarrow> vec \<Rightarrow> vec" where
  "vscale c v = map (\<lambda>x. c * x) v"

definition vadd :: "vec \<Rightarrow> vec \<Rightarrow> vec" where
  "vadd v w = map2 (+) v w"

definition vsub :: "vec \<Rightarrow> vec \<Rightarrow> vec" where
  "vsub v w = map2 (-) v w"

definition mscale :: "real \<Rightarrow> mat \<Rightarrow> mat" where
  "mscale c M = map (vscale c) M"

definition madd :: "mat \<Rightarrow> mat \<Rightarrow> mat" where
  "madd A B = map2 vadd A B"

text \<open>\<^verbatim>\<open>M.T\<close>, \<^verbatim>\<open>np.dot(A, B)\<close> and \<^verbatim>\<open>np.outer(v, w)\<close>.\<close>

definition mT :: "mat \<Rightarrow> mat" where
  "mT M = (case M of [] \<Rightarrow> [] | r # _ \<Rightarrow> map (\<lambda>j. map (\<lambda>row. row ! j) M) [0..<length r])"

definition vdot :: "vec \<Rightarrow> vec \<Rightarrow> real" where
  "vdot v w = sum_list (map2 (*) v w)"

definition mdot :: "mat \<Rightarrow> mat \<Rightarrow> mat" where
  "mdot A B = map (\<lambda>r. map (\<lambda>c. vdot r c) (mT B)) A"

definition outer :: "vec \<Rightarrow> vec \<Rightarrow> mat" where
  "outer v w = map (\<lambda>x. map (\<lambda>y. x * y) w) v"

text \<open>
  The shape assertions on the factor: \<^verbatim>\<open>cov_L.ndim == 2\<close>, \<^verbatim>\<open>cov_L.shape[0] == D\<close>
  and \<^verbatim>\<open>cov_L.shape[1] == D\<close>.
\<close>

definition is_square :: "nat \<Rightarrow> mat \<Rightarrow> bool" where
  "is_square D M = (length M = D \<and> list_all (\<lambda>r. length r = D) M)"

subsection \<open>Errors\<close>

text \<open>
  The exceptions of the source: a failed \<^verbatim>\<open>assert\<close>, the \<^verbatim>\<open>ValueError\<close> of
  \<^verbatim>\<open>proposal\<close>, numpy's \<^verbatim>\<open>LinAlgError\<close>, and the \<^verbatim>\<open>TypeError\<close> of calling or
  subtracting \<^verbatim>\<open>None\<close>.
\<close>

datatype error = AssertionError | ValueError | LinAlgError | TypeError

subsection \<open>The covariance estimator: efficient strategy\<close>

text \<open>
  Lines 53 to 64: one rank-one update per basis vector. \<open>cholupdate\<close> is the update
  of the package choldate, which works on the upper factor; it changes its first
  argument in place, which the model returns.
\<close>

definition isotropic_updates ::
  "(mat \<Rightarrow> vec \<Rightarrow> mat) \<Rightarrow> nat \<Rightarrow> real \<Rightarrow> real \<Rightarrow> mat \<Rightarrow> mat" where
  "isotropic_updates cholupdate D lmbda gamma2 R =
     foldl (\<lambda>R d. cholupdate R (vscale (sqrt lmbda) ((zeros D)[d := sqrt gamma2]))) R [0..<D]"

text \<open>
  Lines 46 to 79: the existing factor is scaled and transposed, updated with the centred
  new vector and, when \<open>gamma2\<close> is given, with the basis vectors, and transposed back.
\<close>

definition efficient_update_cov_L ::
  "(mat \<Rightarrow> vec \<Rightarrow> mat) \<Rightarrow> vec \<Rightarrow> real \<Rightarrow> vec \<Rightarrow> mat \<Rightarrow> real \<Rightarrow> real option \<Rightarrow> mat" where
  "efficient_update_cov_L cholupdate u lmbda mean cov_L nu2 gamma2 =
     (let update_cov_L = mscale (sqrt (1 - lmbda)) (mT cov_L);
          update_vec = vscale (sqrt lmbda * sqrt nu2) (vsub u mean);
          update_cov_L = cholupdate update_cov_L update_vec;
          update_cov_L = (case gamma2 of
                            None \<Rightarrow> update_cov_L
                          | Some g \<Rightarrow> isotropic_updates cholupdate (length u) lmbda g update_cov_L)
      in mT update_cov_L)"

definition rank_one_update_mean_covariance_cholesky_lmbda ::
  "(mat \<Rightarrow> vec \<Rightarrow> mat) \<Rightarrow> vec \<Rightarrow> real \<Rightarrow> vec option \<Rightarrow> mat option \<Rightarrow> real \<Rightarrow> real option
     \<Rightarrow> error + (vec \<times> mat)" where
  "rank_one_update_mean_covariance_cholesky_lmbda cholupdate u lmbda mean cov_L nu2 gamma2 =
     (if \<not> (lmbda \<ge> 0 \<and> lmbda \<le> 1) then Inl AssertionError
      else
        let D = length u;
            first = (mean = None \<or> cov_L = None);
            mean' = (if first then zeros D else the mean);
            cov_L' = (if first then mscale nu2 (eye D) else the cov_L)
        in
          if \<not> first \<and> \<not> (length mean' = D \<and> is_square D cov_L') then Inl AssertionError
          else
            let updated_mean = vadd (vscale (1 - lmbda) mean') (vscale lmbda u);
                update_cov_L = efficient_update_cov_L cholupdate u lmbda mean' cov_L' nu2 gamma2
            in Inr (updated_mean, update_cov_L))"

subsection \<open>The covariance estimator: fallback strategy\<close>

text \<open>
  Lines 116 to 125: the covariance is rebuilt from the factor and blended with the outer
  product of the centred new vector and, when \<open>gamma2\<close> is given, the isotropic term.
\<close>

definition naive_update_cov :: "vec \<Rightarrow> real \<Rightarrow> vec \<Rightarrow> mat \<Rightarrow> real \<Rightarrow> real option \<Rightarrow> mat" where
  "naive_update_cov u lmbda mean cov_L nu2 gamma2 =
     (let update_vec = vsub u mean;
          update_cov = mdot cov_L (mT cov_L);
          update_cov = madd (mscale (1 - lmbda) update_cov)
                            (mscale (lmbda * nu2) (outer update_vec update_vec))
      in case gamma2 of
           None \<Rightarrow> update_cov
         | Some g \<Rightarrow> madd update_cov (mscale g (eye (length update_cov))))"

definition rank_update_mean_covariance_cholesky_lmbda_naive ::
  "(mat \<Rightarrow> mat option) \<Rightarrow> vec \<Rightarrow> real \<Rightarrow> vec option \<Rightarrow> mat option \<Rightarrow> real \<Rightarrow> real option
     \<Rightarrow> error + (vec \<times> mat)" where
  "rank_update_mean_covariance_cholesky_lmbda_naive cholesky u lmbda mean cov_L nu2 gamma2 =
     (if \<not> (lmbda \<ge> 0 \<and> lmbda \<le> 1) then Inl AssertionError
      else
        let D = length u;
            first = (mean = None \<or> cov_L = None);
            mean' = (if first then zeros D else the mean);
            cov_L' = (if first then mscale nu2 (eye D) else the cov_L)
        in
          if \<not> first \<and> \<not> (length mean' = D \<and> is_square D cov_L') then Inl AssertionError
          else
            let updated_mean = vadd (vscale (1 - lmbda) mean') (vscale lmbda u);
                update_cov = naive_update_cov u lmbda mean' cov_L' nu2 gamma2
            in case cholesky update_cov of
                 None \<Rightarrow> Inl LinAlgError
               | Some update_cov_L \<Rightarrow> Inr (updated_mean, update_cov_L))"

subsection \<open>The controller\<close>

text \<open>
  The fields of \<^verbatim>\<open>AdaptiveMetropolis\<close>. The target is its \<^verbatim>\<open>log_pdf\<close> method, so that
  \<^verbatim>\<open>assert_implements_log_pdf_and_grad(target, assert_grad=False)\<close> holds of every
  value of the type. The schedule is called on the iteration number only. \<open>gamma2\<close>
  is a number, as the constructor documents it, so that the estimator is always called
  with the isotropic term.
\<close>

record AdaptiveMetropolis =
  target :: "vec \<Rightarrow> real"
  D :: nat
  nu2 :: real
  gamma2 :: real
  schedule :: "(nat \<Rightarrow> real) option"
  acc_star :: "real option"
  t :: nat
  mu :: "vec option"
  L_C :: "mat option"

text \<open>
  \<^verbatim>\<open>np.allclose(a, b)\<close> with its default tolerances: \<open>|a - b| \<le> atol + rtol * |b|\<close>
  in every position, \<open>rtol = 1e-05\<close> and \<open>atol = 1e-08\<close>.
\<close>

definition allclose :: "vec \<Rightarrow> vec \<Rightarrow> bool" where
  "allclose a b = list_all2 (\<lambda>x y. \<bar>x - y\<bar> \<le> 1 / 10 ^ 8 + 1 / 10 ^ 5 * \<bar>y\<bar>) a b"

definition initialise :: "AdaptiveMetropolis \<Rightarrow> AdaptiveMetropolis" where
  "initialise self =
     (let self = self\<lparr>t := 0\<rparr> in
      if schedule self \<noteq> None
      then self\<lparr>mu := Some (zeros (D self)),
                L_C := Some (mscale (sqrt (nu2 self)) (eye (D self)))\<rparr>
      else self\<lparr>mu := None, L_C := None\<rparr>)"

text \<open>
  \<^verbatim>\<open>__init__\<close>: the fields are stored as given, then the sanity checks of lines 173
  to 177 run, then \<^verbatim>\<open>_initialise\<close>. \<^verbatim>\<open>np.sort(lmbdas)[::-1]\<close> is the probed list
  sorted in descending order.
\<close>

definition init ::
  "(vec \<Rightarrow> real) \<Rightarrow> nat \<Rightarrow> real \<Rightarrow> real \<Rightarrow> (nat \<Rightarrow> real) option \<Rightarrow> real option
     \<Rightarrow> error + AdaptiveMetropolis" where
  "init target' D' nu2' gamma2' schedule' acc_star' =
     (let self = \<lparr>target = target', D = D', nu2 = nu2', gamma2 = gamma2',
                  schedule = schedule', acc_star = acc_star', t = 0, mu = None, L_C = None\<rparr>
      in
        if \<not> (acc_star' = None \<or> the acc_star' > 0 \<and> the acc_star' < 1) then Inl AssertionError
        else
          case schedule' of
            None \<Rightarrow> Inr (initialise self)
          | Some f \<Rightarrow>
              let lmbdas = map f [0..<100] in
              if \<not> list_all (\<lambda>x. x \<ge> 0) lmbdas then Inl AssertionError
              else if \<not> allclose (rev (sort lmbdas)) lmbdas then Inl AssertionError
              else Inr (initialise self))"

text \<open>
  \<^verbatim>\<open>set_batch_covariance\<close>. \<^verbatim>\<open>np.mean(Z, axis=0)\<close> is the mean of each column of the
  \<open>N \<times> d\<close> array \<open>Z\<close>; \<^verbatim>\<open>np.cov(Z.T)\<close> is the sample covariance of the \<open>d\<close> columns,
  normalised by \<open>N - 1\<close> (for \<open>d = 1\<close> numpy returns a scalar, which the sum with
  \<^verbatim>\<open>np.eye(1)*gamma2\<close> broadcasts to the \<open>1 \<times> 1\<close> array of the model). The mean is
  assigned before the factorisation runs. The methods that assign to fields return the
  outcome (\<open>None\<close>, or the exception raised) together with the object as the call
  leaves it.
\<close>

definition np_mean_axis0 :: "mat \<Rightarrow> vec" where
  "np_mean_axis0 Z = map (\<lambda>col. sum_list col / real (length Z)) (mT Z)"

definition np_cov :: "mat \<Rightarrow> mat" where
  "np_cov X =
     (let N = (case X of [] \<Rightarrow> 0 | r # _ \<Rightarrow> length r);
          Xc = map (\<lambda>row. map (\<lambda>x. x - sum_list row / real N) row) X
      in mscale (1 / (real N - 1)) (mdot Xc (mT Xc)))"

definition shape1 :: "mat \<Rightarrow> nat" where
  "shape1 Z = (case Z of [] \<Rightarrow> 0 | r # _ \<Rightarrow> length r)"

definition set_batch_covariance ::
  "(mat \<Rightarrow> mat option) \<Rightarrow> AdaptiveMetropolis \<Rightarrow> mat \<Rightarrow> error option \<times> AdaptiveMetropolis" where
  "set_batch_covariance cholesky self Z =
     (let self = self\<lparr>mu := Some (np_mean_axis0 Z)\<rparr> in
      case cholesky (madd (mscale (nu2 self) (np_cov (mT Z)))
                          (mscale (gamma2 self) (eye (shape1 Z)))) of
        None \<Rightarrow> (Some LinAlgError, self)
      | Some L \<Rightarrow> (None, self\<lparr>L_C := Some L\<rparr>))"

text \<open>
  \<^verbatim>\<open>_update_scaling\<close>; the call to the logger has no effect on the object. \<open>np_log\<close> and
  \<open>np_exp\<close> stand for \<^verbatim>\<open>np.log\<close> and \<^verbatim>\<open>np.exp\<close>. They are parameters because float64
  does not compute the real logarithm and exponential: results are rounded, and the
  exponential of a number below about \<open>-745\<close> is \<open>0.0\<close>. The real functions \<open>ln\<close> and \<open>exp\<close>
  are the instance that reads the code in exact arithmetic.
\<close>

definition update_scaling ::
  "(real \<Rightarrow> real) \<Rightarrow> (real \<Rightarrow> real) \<Rightarrow> AdaptiveMetropolis \<Rightarrow> real
     \<Rightarrow> error option \<times> AdaptiveMetropolis" where
  "update_scaling np_log np_exp self accept_prob =
     (case schedule self of
        None \<Rightarrow> (Some TypeError, self)
      | Some f \<Rightarrow>
          let lmbda = f (t self) in
          (case acc_star self of
             None \<Rightarrow> (Some TypeError, self)
           | Some a \<Rightarrow>
               let diff = accept_prob - a;
                   new_log_nu2 = np_log (nu2 self) + lmbda * diff
               in (None, self\<lparr>nu2 := np_exp new_log_nu2\<rparr>)))"

text \<open>
  \<^verbatim>\<open>update\<close>. \<open>cholupdate\<close> is \<open>None\<close> when the import of choldate failed
  (\<^verbatim>\<open>cholupdate_available = False\<close>); then the fallback strategy runs.
\<close>

definition update ::
  "(real \<Rightarrow> real) \<Rightarrow> (real \<Rightarrow> real) \<Rightarrow> (mat \<Rightarrow> vec \<Rightarrow> mat) option \<Rightarrow> (mat \<Rightarrow> mat option)
     \<Rightarrow> AdaptiveMetropolis \<Rightarrow> vec \<Rightarrow> real \<Rightarrow> error option \<times> AdaptiveMetropolis" where
  "update np_log np_exp cholupdate cholesky self z_new previous_accpept_prob =
     (let self = self\<lparr>t := t self + 1\<rparr> in
      case schedule self of
        None \<Rightarrow> (None, self)
      | Some f \<Rightarrow>
          let lmbda = f (t self);
              r = (case cholupdate of
                     Some cu \<Rightarrow> rank_one_update_mean_covariance_cholesky_lmbda cu z_new lmbda
                                 (mu self) (L_C self) (nu2 self) (Some (gamma2 self))
                   | None \<Rightarrow> rank_update_mean_covariance_cholesky_lmbda_naive cholesky z_new lmbda
                              (mu self) (L_C self) (nu2 self) (Some (gamma2 self)))
          in (case r of
                Inl e \<Rightarrow> (Some e, self)
              | Inr (m, L) \<Rightarrow>
                  let self = self\<lparr>mu := Some m, L_C := Some L\<rparr> in
                  if acc_star self \<noteq> None
                  then update_scaling np_log np_exp self previous_accpept_prob
                  else (None, self)))"

text \<open>
  \<^verbatim>\<open>proposal\<close>. \<open>sample_gaussian\<close> stands for
  \<^verbatim>\<open>sample_gaussian(N=1, mu=current, Sigma=self.L_C, is_cholesky=True)[0]\<close>: it receives
  the current point and the field \<^verbatim>\<open>L_C\<close> as it is, and returns the draw or the
  exception it raises. \<open>np_exp\<close> stands for \<^verbatim>\<open>np.exp\<close>, as in \<open>update_scaling\<close>.
\<close>

definition proposal ::
  "(real \<Rightarrow> real) \<Rightarrow> (vec \<Rightarrow> mat option \<Rightarrow> error + vec) \<Rightarrow> AdaptiveMetropolis \<Rightarrow> vec
     \<Rightarrow> real option \<Rightarrow> error + (vec \<times> real \<times> real)" where
  "proposal np_exp sample_gaussian self current current_log_pdf =
     (if schedule self = None \<and> (mu self = None \<or> L_C self = None) then Inl ValueError
      else
        let current_log_pdf = (case current_log_pdf of
                                 None \<Rightarrow> target self current
                               | Some l \<Rightarrow> l)
        in case sample_gaussian current (L_C self) of
             Inl e \<Rightarrow> Inl e
           | Inr proposal \<Rightarrow>
               let proposal_log_pdf = target self proposal;
                   acc_log_prob = min 0 (proposal_log_pdf - current_log_pdf)
               in Inr (proposal, np_exp acc_log_prob, proposal_log_pdf))"

subsection \<open>One-dimensional instances and example objects\<close>

text \<open>
  What the collaborators compute on arrays of shape \<open>(1, 1)\<close>, used to run the model on
  concrete inputs. The rank-one update replaces the single entry \<open>r\<close> by
  \<open>sqrt (r\<^sup>2 + y\<^sup>2)\<close>; the factorisation of \<open>[[a]]\<close> is \<open>[[sqrt a]]\<close> when \<open>a\<close> is
  positive and raises otherwise. \<open>identity_draw\<close> is the sampler whose standard normal
  draw is the zero vector, so that the candidate is the current point.
\<close>

definition cholupdate_1d :: "mat \<Rightarrow> vec \<Rightarrow> mat" where
  "cholupdate_1d R x = (case (R, x) of ([[r]], [y]) \<Rightarrow> [[sqrt (r\<^sup>2 + y\<^sup>2)]] | _ \<Rightarrow> R)"

definition cholesky_1d :: "mat \<Rightarrow> mat option" where
  "cholesky_1d M = (case M of [[a]] \<Rightarrow> if a > 0 then Some [[sqrt a]] else None | _ \<Rightarrow> None)"

definition identity_draw :: "vec \<Rightarrow> mat option \<Rightarrow> error + vec" where
  "identity_draw current L = Inr current"

text \<open>
  An exponential that underflows as float64 does: the smallest positive float64 is
  \<open>1 / 2 ^ 1074\<close>, and a result below half of it is returned as \<open>0.0\<close>. The rounding of
  the other results is not modelled.
\<close>

definition float64_exp :: "real \<Rightarrow> real" where
  "float64_exp x = (if exp x < 1 / 2 ^ 1075 then 0 else exp x)"

text \<open>
  The one-dimensional sampler whose standard normal draw is 1: the candidate is the
  current point moved by the factor.
\<close>

definition unit_draw :: "vec \<Rightarrow> mat option \<Rightarrow> error + vec" where
  "unit_draw current L =
     (case L of Some [[s]] \<Rightarrow> Inr (map (\<lambda>x. x + s) current) | _ \<Rightarrow> Inl AssertionError)"

text \<open>The log-density of the standard normal distribution, up to its constant.\<close>

definition gaussian_target :: "vec \<Rightarrow> real" where
  "gaussian_target x = - sum_list (map (\<lambda>a. a * a) x) / 2"

text \<open>A target whose log-density is constantly zero, and four schedules.\<close>

definition unit_weight :: "nat \<Rightarrow> real" where
  "unit_weight k = 1"

definition flat_target :: "vec \<Rightarrow> real" where
  "flat_target x = 0"

definition harmonic :: "nat \<Rightarrow> real" where
  "harmonic k = 1 / (real k + 1)"

definition rising :: "nat \<Rightarrow> real" where
  "rising k = real k"

definition late_rise :: "nat \<Rightarrow> real" where
  "late_rise k = (if k = 1 then 1 / 10 ^ 9 else 0)"

text \<open>An object built without a schedule, before any batch covariance is set.\<close>

definition am_unscheduled :: AdaptiveMetropolis where
  "am_unscheduled = \<lparr>target = flat_target, D = 1, nu2 = 1, gamma2 = 2, schedule = None,
     acc_star = None, t = 0, mu = None, L_C = None\<rparr>"

text \<open>Scenario D of the specification in one dimension, as the constructor leaves it.\<close>

definition am_scenario_d :: AdaptiveMetropolis where
  "am_scenario_d = \<lparr>target = flat_target, D = 1, nu2 = 1, gamma2 = 1,
     schedule = Some harmonic, acc_star = Some (234 / 1000), t = 0,
     mu = Some [0], L_C = Some [[1]]\<rparr>"

text \<open>An object whose schedule is constantly 2, which the probe of the constructor accepts.\<close>

definition am_weight_two :: AdaptiveMetropolis where
  "am_weight_two = \<lparr>target = flat_target, D = 1, nu2 = 1, gamma2 = 0,
     schedule = Some (\<lambda>t. 2), acc_star = None, t = 0, mu = Some [0], L_C = Some [[1]]\<rparr>"

text \<open>
  An object whose scale is the smallest positive float64, with the constant schedule 1
  and the target acceptance rate 0.9.
\<close>

definition am_tiny_scale :: AdaptiveMetropolis where
  "am_tiny_scale = \<lparr>target = flat_target, D = 1, nu2 = 1 / 2 ^ 1074, gamma2 = 1,
     schedule = Some unit_weight, acc_star = Some (9 / 10), t = 0,
     mu = Some [0], L_C = Some [[1]]\<rparr>"

text \<open>An object for the standard normal target, with the proposal factor 100.\<close>

definition am_gaussian :: AdaptiveMetropolis where
  "am_gaussian = \<lparr>target = gaussian_target, D = 1, nu2 = 1, gamma2 = 0, schedule = None,
     acc_star = None, t = 0, mu = Some [0], L_C = Some [[100]]\<rparr>"

text \<open>An object declared two-dimensional, with no exploration term.\<close>

definition am_two_dim :: AdaptiveMetropolis where
  "am_two_dim = \<lparr>target = flat_target, D = 2, nu2 = 2, gamma2 = 0, schedule = None,
     acc_star = None, t = 0, mu = None, L_C = None\<rparr>"

subsection \<open>What the rank-one update is assumed to do\<close>

text \<open>
  The update of choldate takes an upper triangular factor \<open>R\<close> and a vector \<open>x\<close> and
  leaves an upper triangular factor of \<open>R\<^sup>T R + x x\<^sup>T\<close>. The code calls it on the
  transposed lower factor. This is what the general statements about the efficient
  strategy assume of the parameter \<open>cholupdate\<close>, in dimension \<open>n\<close>.
\<close>

definition upper_triangular :: "nat \<Rightarrow> mat \<Rightarrow> bool" where
  "upper_triangular n R = (is_square n R \<and> (\<forall>i<n. \<forall>j<i. R ! i ! j = 0))"

definition cholupdate_contract :: "nat \<Rightarrow> (mat \<Rightarrow> vec \<Rightarrow> mat) \<Rightarrow> bool" where
  "cholupdate_contract n cholupdate =
     (\<forall>R x. upper_triangular n R \<and> length x = n \<longrightarrow>
        upper_triangular n (cholupdate R x) \<and>
        mdot (mT (cholupdate R x)) (cholupdate R x) = madd (mdot (mT R) R) (outer x x))"

section \<open>Properties\<close>

subsection \<open>The scale adapter\<close>

lemma update_scaling_ok:
  "schedule self = Some f \<Longrightarrow> acc_star self = Some a \<Longrightarrow>
   update_scaling np_log np_exp self p =
     (None, self\<lparr>nu2 := np_exp (np_log (nu2 self) + f (t self) * (p - a))\<rparr>)"
  by (simp add: update_scaling_def Let_def)

lemma update_scaled_state:
  assumes "schedule self = Some f" and "acc_star self = Some a"
    and "update np_log np_exp cu chol self z p = (None, self')"
  shows "\<exists>m L.
           (case cu of
              Some c \<Rightarrow> rank_one_update_mean_covariance_cholesky_lmbda c z (f (t self + 1))
                          (mu self) (L_C self) (nu2 self) (Some (gamma2 self))
            | None \<Rightarrow> rank_update_mean_covariance_cholesky_lmbda_naive chol z (f (t self + 1))
                       (mu self) (L_C self) (nu2 self) (Some (gamma2 self))) = Inr (m, L) \<and>
           self' = self\<lparr>t := t self + 1, mu := Some m, L_C := Some L,
                        nu2 := np_exp (np_log (nu2 self) + f (t self + 1) * (p - a))\<rparr>"
  using assms
  by (cases cu)
    (auto simp: update_def Let_def update_scaling_ok split: sum.splits prod.splits)

lemma exact_scale_decreases:
  assumes "0 < n" and "d < 0"
  shows "exp (ln n + d) < (n::real)"
proof -
  have "exp d < 1" using assms(2) by simp
  then have "n * exp d < n * 1"
    using assms(1) by (simp only: mult_less_cancel_left_pos)
  then show ?thesis using assms(1) by (simp add: exp_add)
qed

text \<open>
  C5, as the code has it. With a schedule \<open>f\<close> and a target acceptance rate \<open>a\<close>, an update
  call that returns has first run the covariance update, with the weight \<open>f t\<close> at the
  counter \<open>t\<close> after its increment and with the old \<open>nu2\<close>, and has stored its mean and
  factor; it has then replaced \<open>nu2\<close> by \<open>np_exp (np_log nu2 + f t * (p - a))\<close>, where \<open>p\<close>
  is the previous acceptance probability. The new \<open>nu2\<close> is not negative when the
  exponential never is. In exact arithmetic, from a positive \<open>nu2\<close>, it is positive, and
  smaller than the old one when \<open>p < a\<close> and the weight is positive.
\<close>

theorem scale_adaptation:
  assumes "schedule self = Some f" and "acc_star self = Some a"
    and "update np_log np_exp cu chol self z p = (None, self')"
  shows "(\<exists>m L.
           (case cu of
              Some c \<Rightarrow> rank_one_update_mean_covariance_cholesky_lmbda c z (f (t self + 1))
                          (mu self) (L_C self) (nu2 self) (Some (gamma2 self))
            | None \<Rightarrow> rank_update_mean_covariance_cholesky_lmbda_naive chol z (f (t self + 1))
                       (mu self) (L_C self) (nu2 self) (Some (gamma2 self))) = Inr (m, L) \<and>
           self' = self\<lparr>t := t self + 1, mu := Some m, L_C := Some L,
                        nu2 := np_exp (np_log (nu2 self) + f (t self + 1) * (p - a))\<rparr>) \<and>
         ((\<forall>x. 0 \<le> np_exp x) \<longrightarrow> 0 \<le> nu2 self') \<and>
         (np_log = ln \<and> np_exp = exp \<and> 0 < nu2 self \<longrightarrow>
            0 < nu2 self' \<and> (p < a \<and> 0 < f (t self + 1) \<longrightarrow> nu2 self' < nu2 self))"
proof (intro conjI impI)
  show "\<exists>m L.
           (case cu of
              Some c \<Rightarrow> rank_one_update_mean_covariance_cholesky_lmbda c z (f (t self + 1))
                          (mu self) (L_C self) (nu2 self) (Some (gamma2 self))
            | None \<Rightarrow> rank_update_mean_covariance_cholesky_lmbda_naive chol z (f (t self + 1))
                       (mu self) (L_C self) (nu2 self) (Some (gamma2 self))) = Inr (m, L) \<and>
           self' = self\<lparr>t := t self + 1, mu := Some m, L_C := Some L,
                        nu2 := np_exp (np_log (nu2 self) + f (t self + 1) * (p - a))\<rparr>"
    using assms by (rule update_scaled_state)
next
  from update_scaled_state [OF assms]
  have eq: "nu2 self' = np_exp (np_log (nu2 self) + f (t self + 1) * (p - a))"
    by auto
  {
    assume "\<forall>x. 0 \<le> np_exp x"
    then show "0 \<le> nu2 self'" by (simp add: eq)
  }
  {
    assume e: "np_log = ln \<and> np_exp = exp \<and> 0 < nu2 self"
    then show "0 < nu2 self'" by (simp add: eq)
    assume "p < a \<and> 0 < f (t self + 1)"
    then have "f (t self + 1) * (p - a) < 0" by (simp add: mult_pos_neg)
    with e show "nu2 self' < nu2 self" by (simp add: eq exact_scale_decreases)
  }
qed

lemma float64_exp_nonneg: "0 \<le> float64_exp x"
  by (simp add: float64_exp_def)

lemma scenario_d_update:
  "fst (update np_log np_exp (Some cholupdate_1d) cholesky_1d am_scenario_d [0] (1 / 10)) = None"
  by (simp add: update_def am_scenario_d_def harmonic_def Let_def update_scaling_def
    rank_one_update_mean_covariance_cholesky_lmbda_def is_square_def split: prod.splits)

theorem scale_adaptation_witness:
  "nu2 (snd (update ln exp (Some cholupdate_1d) cholesky_1d am_scenario_d [0] (1 / 10)))
     = exp (1 / 2 * (1 / 10 - 234 / 1000)) \<and>
   nu2 (snd (update ln exp (Some cholupdate_1d) cholesky_1d am_scenario_d [0] (1 / 10)))
     < nu2 am_scenario_d \<and>
   0 \<le> nu2 (snd (update ln float64_exp (Some cholupdate_1d) cholesky_1d am_scenario_d [0] (1 / 10)))"
proof -
  have s: "schedule am_scenario_d = Some harmonic"
    and a: "acc_star am_scenario_d = Some (234 / 1000)"
    by (simp_all add: am_scenario_d_def)
  have u: "update ln exp (Some cholupdate_1d) cholesky_1d am_scenario_d [0] (1 / 10) =
      (None, snd (update ln exp (Some cholupdate_1d) cholesky_1d am_scenario_d [0] (1 / 10)))"
    using scenario_d_update [of ln exp] by (simp add: prod_eq_iff)
  have v: "update ln float64_exp (Some cholupdate_1d) cholesky_1d am_scenario_d [0] (1 / 10) =
      (None, snd (update ln float64_exp (Some cholupdate_1d) cholesky_1d am_scenario_d [0] (1 / 10)))"
    using scenario_d_update [of ln float64_exp] by (simp add: prod_eq_iff)
  have n: "0 < nu2 am_scenario_d" by (simp add: am_scenario_d_def)
  have 1: "nu2 (snd (update ln exp (Some cholupdate_1d) cholesky_1d am_scenario_d [0] (1 / 10)))
     = exp (1 / 2 * (1 / 10 - 234 / 1000)) \<and>
   nu2 (snd (update ln exp (Some cholupdate_1d) cholesky_1d am_scenario_d [0] (1 / 10)))
     < nu2 am_scenario_d"
    using scale_adaptation [OF s a u] n by (auto simp: am_scenario_d_def harmonic_def)
  have 2: "0 \<le> nu2 (snd (update ln float64_exp (Some cholupdate_1d) cholesky_1d am_scenario_d
      [0] (1 / 10)))"
    using scale_adaptation [OF s a v] float64_exp_nonneg by blast
  from 1 2 show ?thesis by simp
qed

lemma exp_one_gt_two: "2 < exp (1::real)"
proof -
  have "1 + 1 / 2 \<le> exp (1 / 2 :: real)" by (rule exp_ge_add_one_self)
  then have "(3 / 2) * (3 / 2) \<le> exp (1 / 2 :: real) * exp (1 / 2)"
    by (intro mult_mono) simp_all
  also have "exp (1 / 2 :: real) * exp (1 / 2) = exp 1"
    by (simp flip: exp_add)
  finally show ?thesis by simp
qed

lemma exp_nine_tenths_gt_two: "2 < exp (9 / 10 :: real)"
proof -
  have "1 + 9 / 20 \<le> exp (9 / 20 :: real)" by (rule exp_ge_add_one_self)
  then have "(29 / 20) * (29 / 20) \<le> exp (9 / 20 :: real) * exp (9 / 20)"
    by (intro mult_mono) simp_all
  also have "exp (9 / 20 :: real) * exp (9 / 20) = exp (9 / 10)"
    by (simp flip: exp_add)
  finally show ?thesis by simp
qed

lemma float64_exp_underflow:
  assumes "x \<le> - 1075"
  shows "float64_exp x = 0"
proof -
  have "(2::real) ^ 1075 < exp 1 ^ 1075"
    using exp_one_gt_two by (intro power_strict_mono) simp_all
  also have "exp (1::real) ^ 1075 = exp 1075"
    using exp_of_nat_mult [of 1075 "1::real"] by simp
  finally have "(2::real) ^ 1075 < exp 1075" .
  then have "inverse (exp (1075::real)) < inverse (2 ^ 1075)"
    by (intro less_imp_inverse_less) simp_all
  then have "exp (- (1075::real)) < 1 / 2 ^ 1075"
    by (simp add: exp_minus inverse_eq_divide)
  moreover have "exp x \<le> exp (- (1075::real))" using assms by simp
  ultimately have "exp x < 1 / 2 ^ 1075" by (rule le_less_trans [rotated])
  then show ?thesis by (simp only: float64_exp_def if_True)
qed

lemma smallest_scale_underflows:
  "float64_exp (ln (1 / 2 ^ 1074) + 1 * (0 - 9 / 10)) = 0"
proof -
  have p: "(0::real) < 1 / 2 ^ 1074" by simp
  have "exp (- (9 / 10 :: real)) = inverse (exp (9 / 10))" by (rule exp_minus)
  also have "\<dots> < inverse 2"
    using exp_nine_tenths_gt_two by (intro less_imp_inverse_less) simp_all
  finally have h: "exp (- (9 / 10 :: real)) < 1 / 2" by (simp add: inverse_eq_divide)
  have "exp (ln (1 / 2 ^ 1074) + 1 * (0 - 9 / 10 :: real)) = (1 / 2 ^ 1074) * exp (- (9 / 10))"
    using p by (simp only: exp_add exp_ln mult_1 diff_0)
  also have "\<dots> < (1 / 2 ^ 1074) * (1 / 2)"
    using h p by (simp only: mult_less_cancel_left_pos)
  also have "\<dots> = 1 / 2 ^ 1075"
    by (simp only: times_divide_times_eq mult_1 power_Suc2 [symmetric]) simp
  finally show ?thesis by (simp only: float64_exp_def if_True)
qed

lemma tiny_scale_update:
  "fst (update np_log np_exp None cholesky_1d am_tiny_scale [0] 0) = None"
  by (simp add: update_def am_tiny_scale_def unit_weight_def Let_def update_scaling_def
    rank_update_mean_covariance_cholesky_lmbda_naive_def naive_update_cov_def is_square_def
    vsub_def mdot_def mT_def vdot_def madd_def vadd_def mscale_def vscale_def outer_def eye_def
    cholesky_1d_def split: prod.splits)

text \<open>
  The claim as stated, that the new \<open>nu2\<close> is always positive, fails in float64: from the
  smallest positive scale, with the weight 1, the previous acceptance probability 0 and
  the target rate 0.9, the exponential underflows and the new scale is 0.
\<close>

theorem scale_underflows:
  "0 < nu2 am_tiny_scale \<and>
   fst (update ln float64_exp None cholesky_1d am_tiny_scale [0] 0) = None \<and>
   nu2 (snd (update ln float64_exp None cholesky_1d am_tiny_scale [0] 0)) = 0"
proof -
  have s: "schedule am_tiny_scale = Some unit_weight"
    and a: "acc_star am_tiny_scale = Some (9 / 10)"
    by (simp_all add: am_tiny_scale_def)
  have u: "update ln float64_exp None cholesky_1d am_tiny_scale [0] 0 =
      (None, snd (update ln float64_exp None cholesky_1d am_tiny_scale [0] 0))"
    using tiny_scale_update [of ln float64_exp] by (simp add: prod_eq_iff)
  from update_scaled_state [OF s a u]
  have "nu2 (snd (update ln float64_exp None cholesky_1d am_tiny_scale [0] 0)) =
      float64_exp (ln (nu2 am_tiny_scale) + unit_weight (t am_tiny_scale + 1) * (0 - 9 / 10))"
    by auto
  also have "\<dots> = float64_exp (ln (1 / 2 ^ 1074) + 1 * (0 - 9 / 10))"
    by (simp only: am_tiny_scale_def unit_weight_def AdaptiveMetropolis.simps)
  also have "\<dots> = 0" by (rule smallest_scale_underflows)
  finally have 1: "nu2 (snd (update ln float64_exp None cholesky_1d am_tiny_scale [0] 0)) = 0" .
  have 2: "0 < nu2 am_tiny_scale" by (simp add: am_tiny_scale_def)
  from 1 2 tiny_scale_update [of ln float64_exp] show ?thesis by simp
qed

subsection \<open>The counter\<close>

text \<open>
  C7. Without a schedule, an update call raises nothing and changes the counter only,
  which grows by one: the mean, the factor and \<open>nu2\<close> are as before.
\<close>

theorem update_without_schedule_only_counts:
  "schedule self = None \<Longrightarrow> update np_log np_exp cu chol self z p = (None, self\<lparr>t := t self + 1\<rparr>)"
  by (simp add: update_def Let_def)

theorem update_without_schedule_only_counts_witness:
  "update ln exp None cholesky_1d am_unscheduled [1] (1 / 2) = (None, am_unscheduled\<lparr>t := 1\<rparr>)"
  using update_without_schedule_only_counts [where self = am_unscheduled and np_log = ln
      and np_exp = exp and cu = None and chol = cholesky_1d and z = "[1]" and p = "1 / 2"]
  by (simp add: am_unscheduled_def)

subsection \<open>The acceptance probability\<close>

text \<open>
  C9, as the code has it. When \<open>proposal\<close> returns, the acceptance probability is
  \<open>np_exp (min 0 (candidate log-density - current log-density))\<close>, with no further term.
  The current log-density is the one passed in, or the target's at the current point
  when none is passed. The probability lies in \<open>[0, 1]\<close> for every exponential that maps
  the numbers up to 0 into \<open>[0, 1]\<close>, and in \<open>(0, 1]\<close> in exact arithmetic.
\<close>

theorem acceptance_probability:
  assumes "proposal np_exp sg self current lp = Inr (c, a, l)"
  shows "a = np_exp (min 0 (l - (case lp of None \<Rightarrow> target self current | Some x \<Rightarrow> x)))
         \<and> l = target self c
         \<and> ((\<forall>x\<le>0. 0 \<le> np_exp x \<and> np_exp x \<le> 1) \<longrightarrow> 0 \<le> a \<and> a \<le> 1)
         \<and> (np_exp = exp \<longrightarrow> 0 < a \<and> a \<le> 1)"
proof -
  from assms
  have eq: "a = np_exp (min 0 (l - (case lp of None \<Rightarrow> target self current | Some x \<Rightarrow> x)))"
    and l: "l = target self c"
    by (auto simp: proposal_def Let_def split: if_splits sum.splits option.splits)
  have "0 \<le> a \<and> a \<le> 1" if "\<forall>x\<le>0. 0 \<le> np_exp x \<and> np_exp x \<le> 1"
    using that by (simp add: eq)
  moreover have "0 < a \<and> a \<le> 1" if "np_exp = exp"
    using that by (simp add: eq)
  ultimately show ?thesis using eq l by blast
qed

lemma float64_exp_unit_interval: "x \<le> 0 \<Longrightarrow> 0 \<le> float64_exp x \<and> float64_exp x \<le> 1"
  by (simp add: float64_exp_def)

lemma float64_exp_zero: "float64_exp 0 = 1"
proof -
  have "\<not> (1::real) < 1 / 2 ^ 1075"
    by (simp add: not_less divide_le_eq_1 one_le_power)
  then show ?thesis by (simp add: float64_exp_def)
qed

theorem acceptance_probability_witness:
  "proposal exp identity_draw (am_unscheduled\<lparr>mu := Some [0], L_C := Some [[1]]\<rparr>) [0] (Some 0)
     = Inr ([0], 1, 0)
   \<and> (0::real) < 1 \<and>
   proposal float64_exp identity_draw (am_unscheduled\<lparr>mu := Some [0], L_C := Some [[1]]\<rparr>)
     [0] (Some 0) = Inr ([0], 1, 0)
   \<and> (0::real) \<le> 1"
proof -
  have e: "proposal exp identity_draw (am_unscheduled\<lparr>mu := Some [0], L_C := Some [[1]]\<rparr>) [0] (Some 0)
      = Inr ([0], 1, 0)"
    by (simp add: proposal_def am_unscheduled_def identity_draw_def flat_target_def)
  have f: "proposal float64_exp identity_draw (am_unscheduled\<lparr>mu := Some [0], L_C := Some [[1]]\<rparr>)
      [0] (Some 0) = Inr ([0], 1, 0)"
    by (simp add: proposal_def am_unscheduled_def identity_draw_def flat_target_def
        float64_exp_zero)
  have "(0::real) < 1" using acceptance_probability [OF e] by simp
  moreover have "(0::real) \<le> 1"
    using acceptance_probability [OF f] float64_exp_unit_interval by blast
  ultimately show ?thesis using e f by simp
qed

text \<open>
  The claim as stated, that the probability is positive for all finite log-densities,
  fails in float64: from the current point \<open>[0]\<close>, of log-density 0, the candidate \<open>[100]\<close>
  has the log-density \<open>-5000\<close>, the exponential underflows and the probability is 0.
\<close>

theorem acceptance_underflows:
  "proposal float64_exp unit_draw am_gaussian [0] None = Inr ([100], 0, - 5000)"
proof -
  have "float64_exp (- 5000) = 0" by (rule float64_exp_underflow) simp
  then show ?thesis
    by (simp add: proposal_def am_gaussian_def unit_draw_def gaussian_target_def)
qed

subsection \<open>Failing updates\<close>

lemma update_failure_state:
  "update np_log np_exp cu chol self z p = (Some e, self') \<Longrightarrow> self' = self\<lparr>t := t self + 1\<rparr>"
  by (auto simp: update_def Let_def update_scaling_def split: option.splits sum.splits prod.splits if_splits)

lemma efficient_bad_weight:
  "\<not> (0 \<le> l \<and> l \<le> 1) \<Longrightarrow>
   rank_one_update_mean_covariance_cholesky_lmbda cu u l m c n g = Inl AssertionError"
  by (simp add: rank_one_update_mean_covariance_cholesky_lmbda_def)

lemma naive_bad_weight:
  "\<not> (0 \<le> l \<and> l \<le> 1) \<Longrightarrow>
   rank_update_mean_covariance_cholesky_lmbda_naive ch u l m c n g = Inl AssertionError"
  by (simp add: rank_update_mean_covariance_cholesky_lmbda_naive_def)

lemma efficient_bad_shape:
  "\<not> (length m = length u \<and> is_square (length u) c) \<Longrightarrow>
   rank_one_update_mean_covariance_cholesky_lmbda cu u l (Some m) (Some c) n g = Inl AssertionError"
  by (simp add: rank_one_update_mean_covariance_cholesky_lmbda_def Let_def)

lemma naive_bad_shape:
  "\<not> (length m = length u \<and> is_square (length u) c) \<Longrightarrow>
   rank_update_mean_covariance_cholesky_lmbda_naive ch u l (Some m) (Some c) n g = Inl AssertionError"
  by (simp add: rank_update_mean_covariance_cholesky_lmbda_naive_def Let_def)

text \<open>
  C8, as the code has it. The counter is incremented before the estimator validates its
  input, so an update call that raises leaves the object with the counter one higher
  and every other field, among them the mean, the factor and \<open>nu2\<close>, as before. A
  weight outside \<open>[0, 1]\<close> and a mean or factor whose shape disagrees with the new
  point raise \<^verbatim>\<open>AssertionError\<close> in this way.
\<close>

theorem failed_update_state:
  "(update np_log np_exp cu chol self z p = (Some e, self') \<longrightarrow> self' = self\<lparr>t := t self + 1\<rparr>) \<and>
   (schedule self = Some f \<and> \<not> (0 \<le> f (t self + 1) \<and> f (t self + 1) \<le> 1) \<longrightarrow>
      update np_log np_exp cu chol self z p = (Some AssertionError, self\<lparr>t := t self + 1\<rparr>)) \<and>
   (schedule self = Some f \<and> mu self = Some m \<and> L_C self = Some L \<and>
      \<not> (length m = length z \<and> is_square (length z) L) \<longrightarrow>
      update np_log np_exp cu chol self z p = (Some AssertionError, self\<lparr>t := t self + 1\<rparr>))"
proof (intro conjI impI)
  assume "update np_log np_exp cu chol self z p = (Some e, self')"
  then show "self' = self\<lparr>t := t self + 1\<rparr>" by (rule update_failure_state)
next
  assume "schedule self = Some f \<and> \<not> (0 \<le> f (t self + 1) \<and> f (t self + 1) \<le> 1)"
  then show "update np_log np_exp cu chol self z p = (Some AssertionError, self\<lparr>t := t self + 1\<rparr>)"
    by (cases cu) (simp_all add: update_def Let_def efficient_bad_weight naive_bad_weight)
next
  assume a: "schedule self = Some f \<and> mu self = Some m \<and> L_C self = Some L \<and>
      \<not> (length m = length z \<and> is_square (length z) L)"
  show "update np_log np_exp cu chol self z p = (Some AssertionError, self\<lparr>t := t self + 1\<rparr>)"
  proof (cases "0 \<le> f (t self + 1) \<and> f (t self + 1) \<le> 1")
    case True
    with a show ?thesis
      by (cases cu) (simp_all add: update_def Let_def efficient_bad_shape naive_bad_shape)
  next
    case False
    with a show ?thesis
      by (cases cu) (simp_all add: update_def Let_def efficient_bad_weight naive_bad_weight)
  qed
qed

theorem failed_update_state_witness:
  "update ln exp (Some cholupdate_1d) cholesky_1d am_weight_two [0] 0
     = (Some AssertionError, am_weight_two\<lparr>t := 1\<rparr>)"
proof -
  have h: "schedule am_weight_two = Some (\<lambda>t. 2) \<and>
      \<not> (0 \<le> (\<lambda>t. 2::real) (t am_weight_two + 1) \<and> (\<lambda>t. 2::real) (t am_weight_two + 1) \<le> 1)"
    by (simp add: am_weight_two_def)
  have "update ln exp (Some cholupdate_1d) cholesky_1d am_weight_two [0] 0
     = (Some AssertionError, am_weight_two\<lparr>t := t am_weight_two + 1\<rparr>)"
    using failed_update_state [where np_log = ln and np_exp = exp and cu = "Some cholupdate_1d"
      and chol = cholesky_1d and self = am_weight_two and z = "[0]" and p = 0
      and f = "\<lambda>t. 2" and e = AssertionError and self' = "am_weight_two\<lparr>t := 1\<rparr>"
      and m = "[0]" and L = "[[1]]"] h
    by blast
  then show ?thesis by (simp add: am_weight_two_def)
qed

text \<open>
  The claim as stated, that a failing call changes no part of the state, fails for the
  counter: the constant schedule 2 makes the call raise, and the counter is then 1.
\<close>

theorem failed_update_changes_counter:
  "fst (update ln exp (Some cholupdate_1d) cholesky_1d am_weight_two [0] 0) = Some AssertionError \<and>
   t (snd (update ln exp (Some cholupdate_1d) cholesky_1d am_weight_two [0] 0)) \<noteq> t am_weight_two"
  by (simp add: update_def Let_def am_weight_two_def
      rank_one_update_mean_covariance_cholesky_lmbda_def)

subsection \<open>When a proposal can be drawn\<close>

lemma init_scheduled_present:
  "init tg d n g (Some f) a = Inr self \<Longrightarrow> schedule self = Some f \<and> mu self \<noteq> None \<and> L_C self \<noteq> None"
  by (auto simp: init_def initialise_def Let_def split: if_splits)

lemma set_batch_covariance_present:
  "set_batch_covariance chol self Z = (None, self') \<Longrightarrow> mu self' \<noteq> None \<and> L_C self' \<noteq> None"
  by (auto simp: set_batch_covariance_def Let_def split: option.splits)

text \<open>
  C6. \<open>proposal\<close> raises the \<^verbatim>\<open>ValueError\<close> of line 260 when no schedule is set and
  the mean or the factor is absent. In every other state, when the sampler returns a
  draw \<open>c\<close>, it returns \<open>c\<close>, the acceptance probability and the log-density of \<open>c\<close>.
  An object constructed with a schedule, and an object on which the batch covariance
  has been set, are in such a state.
\<close>

theorem proposal_not_ready:
  "(schedule self = None \<and> (mu self = None \<or> L_C self = None) \<longrightarrow>
      proposal np_exp sg self cur lp = Inl ValueError) \<and>
   (\<not> (schedule self = None \<and> (mu self = None \<or> L_C self = None)) \<and> sg cur (L_C self) = Inr c \<longrightarrow>
      proposal np_exp sg self cur lp =
        Inr (c, np_exp (min 0 (target self c - (case lp of None \<Rightarrow> target self cur | Some x \<Rightarrow> x))),
             target self c)) \<and>
   (init tg d n g (Some f) a = Inr self \<longrightarrow>
      \<not> (schedule self = None \<and> (mu self = None \<or> L_C self = None))) \<and>
   (set_batch_covariance chol self0 Z = (None, self) \<longrightarrow>
      \<not> (schedule self = None \<and> (mu self = None \<or> L_C self = None)))"
  using init_scheduled_present [of tg d n g f a self]
    set_batch_covariance_present [of chol self0 Z self]
  by (auto simp: proposal_def Let_def split: option.splits)

lemma batch_example:
  "set_batch_covariance cholesky_1d am_unscheduled [[0], [2]]
     = (None, am_unscheduled\<lparr>mu := Some [1], L_C := Some [[2]]\<rparr>)"
  by (simp add: set_batch_covariance_def am_unscheduled_def Let_def np_mean_axis0_def np_cov_def
      mT_def shape1_def madd_def mscale_def vscale_def vadd_def mdot_def vdot_def eye_def cholesky_1d_def)

theorem proposal_not_ready_witness:
  "proposal exp identity_draw am_unscheduled [0] None = Inl ValueError \<and>
   proposal exp identity_draw (am_unscheduled\<lparr>mu := Some [1], L_C := Some [[2]]\<rparr>) [0] None
     = Inr ([0], 1, 0)"
proof -
  have g: "schedule am_unscheduled = None \<and> (mu am_unscheduled = None \<or> L_C am_unscheduled = None)"
    by (simp add: am_unscheduled_def)
  have 1: "proposal exp identity_draw am_unscheduled [0] None = Inl ValueError"
    using proposal_not_ready [where self = am_unscheduled and sg = identity_draw and cur = "[0]"
        and lp = None] g by blast
  have d: "identity_draw [0] (L_C (am_unscheduled\<lparr>mu := Some [1], L_C := Some [[2]]\<rparr>)) = Inr [0]"
    by (simp add: identity_draw_def)
  have 2: "proposal exp identity_draw (am_unscheduled\<lparr>mu := Some [1], L_C := Some [[2]]\<rparr>) [0] None
     = Inr ([0], 1, 0)"
    using proposal_not_ready [where self = "am_unscheduled\<lparr>mu := Some [1], L_C := Some [[2]]\<rparr>"
        and sg = identity_draw and cur = "[0]" and c = "[0]" and lp = None
        and chol = cholesky_1d and ?self0.0 = am_unscheduled and Z = "[[0], [2]]"]
      d batch_example
    by (simp add: am_unscheduled_def flat_target_def)
  from 1 2 show ?thesis by simp
qed

subsection \<open>Construction\<close>

lemma allclose_refl: "allclose l l"
  by (simp add: allclose_def list_all2_same)

lemma allclose_nth:
  "allclose a b \<Longrightarrow> i < length b \<Longrightarrow> \<bar>a ! i - b ! i\<bar> \<le> 1 / 10 ^ 8 + 1 / 10 ^ 5 * \<bar>b ! i\<bar>"
  by (auto simp: allclose_def list_all2_conv_all_nth)

lemma descending_sort_nth_mono:
  "i \<le> j \<Longrightarrow> j < length l \<Longrightarrow> rev (sort l) ! j \<le> rev (sort l) ! i"
  by (rule sorted_rev_nth_mono) simp_all

lemma allclose_sorted_gap:
  fixes l :: "real list"
  assumes "allclose (rev (sort l)) l" and "i < j" and "j < length l"
  shows "l ! j - l ! i \<le> 2 / 10 ^ 8 + (\<bar>l ! i\<bar> + \<bar>l ! j\<bar>) / 10 ^ 5"
proof -
  have a: "\<bar>rev (sort l) ! i - l ! i\<bar> \<le> 1 / 10 ^ 8 + 1 / 10 ^ 5 * \<bar>l ! i\<bar>"
    using assms by (intro allclose_nth) simp_all
  have b: "\<bar>rev (sort l) ! j - l ! j\<bar> \<le> 1 / 10 ^ 8 + 1 / 10 ^ 5 * \<bar>l ! j\<bar>"
    using assms by (intro allclose_nth) simp_all
  have c: "rev (sort l) ! j \<le> rev (sort l) ! i"
    using assms by (intro descending_sort_nth_mono) simp_all
  have a': "rev (sort l) ! i - l ! i \<le> 1 / 10 ^ 8 + 1 / 10 ^ 5 * \<bar>l ! i\<bar>"
    using a by (rule order_trans [OF abs_ge_self])
  have b': "l ! j - rev (sort l) ! j \<le> 1 / 10 ^ 8 + 1 / 10 ^ 5 * \<bar>l ! j\<bar>"
    using b by (simp only: abs_le_iff) simp
  have e: "2 / 10 ^ 8 + (\<bar>l ! i\<bar> + \<bar>l ! j\<bar>) / 10 ^ 5
      = (1 / 10 ^ 8 + 1 / 10 ^ 5 * \<bar>l ! i\<bar>) + (1 / 10 ^ 8 + 1 / 10 ^ 5 * \<bar>l ! j\<bar>)"
    by (simp add: add_divide_distrib)
  from a' b' c show ?thesis unfolding e by linarith
qed

lemma descending_sort_id:
  fixes l :: "real list"
  assumes "\<forall>i j. i \<le> j \<longrightarrow> j < length l \<longrightarrow> l ! j \<le> l ! i"
  shows "rev (sort l) = l"
proof -
  have "sorted (rev l)" using assms by (simp add: sorted_rev_iff_nth_mono)
  moreover have "mset (rev l) = mset l" by simp
  ultimately have "sort l = rev l" by (rule properties_for_sort [rotated])
  then show ?thesis by simp
qed

lemma init_rejects_acc_star:
  "\<not> (0 < a \<and> a < 1) \<Longrightarrow> init tg d n g s (Some a) = Inl AssertionError"
  by (simp add: init_def Let_def)

lemma init_rejects_negative:
  assumes "i < 100" and "f i < 0"
  shows "init tg d n g (Some f) a = Inl AssertionError"
proof -
  have "f i \<in> set (map f [0..<100])" using assms(1) by simp
  with assms(2) have "\<not> list_all (\<lambda>x. x \<ge> 0) (map f [0..<100])"
    unfolding list_all_iff by (metis not_le)
  then show ?thesis by (simp add: init_def Let_def)
qed

lemma init_rejects_increase:
  assumes "i < j" and "j < 100"
    and "f j - f i > 2 / 10 ^ 8 + (\<bar>f i\<bar> + \<bar>f j\<bar>) / 10 ^ 5"
  shows "init tg d n g (Some f) a = Inl AssertionError"
proof -
  have "\<not> allclose (rev (sort (map f [0..<100]))) (map f [0..<100])"
  proof
    assume "allclose (rev (sort (map f [0..<100]))) (map f [0..<100])"
    from allclose_sorted_gap [OF this, of i j] assms show False by simp
  qed
  then show ?thesis by (simp add: init_def Let_def)
qed

lemma init_accepts:
  assumes "\<forall>x. a = Some x \<longrightarrow> 0 < x \<and> x < 1"
    and "\<forall>f. s = Some f \<longrightarrow> (\<forall>i<100. 0 \<le> f i) \<and> (\<forall>i j. i \<le> j \<longrightarrow> j < 100 \<longrightarrow> f j \<le> f i)"
  shows "init tg d n g s a = Inr (initialise \<lparr>target = tg, D = d, nu2 = n, gamma2 = g,
            schedule = s, acc_star = a, t = 0, mu = None, L_C = None\<rparr>)"
proof (cases s)
  case None
  with assms(1) show ?thesis by (auto simp: init_def Let_def)
next
  case (Some f)
  with assms(2) have nn: "\<forall>i<100. 0 \<le> f i" and mono: "\<forall>i j. i \<le> j \<longrightarrow> j < 100 \<longrightarrow> f j \<le> f i"
    by auto
  have 1: "list_all (\<lambda>x. x \<ge> 0) (map f [0..<100])"
    using nn by (simp add: list_all_iff)
  have "rev (sort (map f [0..<100])) = map f [0..<100]"
    by (rule descending_sort_id) (use mono in simp)
  then have 2: "allclose (rev (sort (map f [0..<100]))) (map f [0..<100])"
    by (simp add: allclose_refl)
  from 1 2 Some assms(1) show ?thesis by (auto simp: init_def Let_def)
qed

lemma init_ignores_scale:
  "isl (init tg d n g s a) = isl (init tg d n' g' s a)"
  by (simp add: init_def Let_def split: option.splits)

text \<open>
  C3, as the code has it. The constructor checks neither \<open>nu2\<close> nor \<open>gamma2\<close>: whether
  it raises does not depend on them. It raises \<^verbatim>\<open>AssertionError\<close> when \<open>acc_star\<close> is
  given outside \<open>(0, 1)\<close>, when one of the hundred probed weights is negative, and when
  a later probed weight exceeds an earlier one by more than the tolerance of the comparison
  (\<open>2e-8 + 1e-5 * (|earlier| + |later|)\<close>). It accepts every valid \<open>acc_star\<close> together
  with every schedule whose first hundred weights are non-negative and non-increasing.
\<close>

theorem init_validation:
  "(\<forall>x. a = Some x \<and> \<not> (0 < x \<and> x < 1) \<longrightarrow> init tg d n g s a = Inl AssertionError) \<and>
   (\<forall>f i. s = Some f \<and> i < 100 \<and> f i < 0 \<longrightarrow> init tg d n g s a = Inl AssertionError) \<and>
   (\<forall>f i j. s = Some f \<and> i < j \<and> j < 100 \<and> 2 / 10 ^ 8 + (\<bar>f i\<bar> + \<bar>f j\<bar>) / 10 ^ 5 < f j - f i \<longrightarrow>
      init tg d n g s a = Inl AssertionError) \<and>
   ((\<forall>x. a = Some x \<longrightarrow> 0 < x \<and> x < 1) \<and>
    (\<forall>f. s = Some f \<longrightarrow> (\<forall>i<100. 0 \<le> f i) \<and> (\<forall>i j. i \<le> j \<longrightarrow> j < 100 \<longrightarrow> f j \<le> f i)) \<longrightarrow>
      init tg d n g s a = Inr (initialise \<lparr>target = tg, D = d, nu2 = n, gamma2 = g,
            schedule = s, acc_star = a, t = 0, mu = None, L_C = None\<rparr>)) \<and>
   isl (init tg d n g s a) = isl (init tg d n' g' s a)"
proof (intro conjI allI impI)
  fix x assume "a = Some x \<and> \<not> (0 < x \<and> x < 1)"
  then show "init tg d n g s a = Inl AssertionError"
    by (auto intro: init_rejects_acc_star)
next
  fix f i assume "s = Some f \<and> i < 100 \<and> f i < 0"
  then show "init tg d n g s a = Inl AssertionError"
    by (auto intro: init_rejects_negative)
next
  fix f i j
  assume "s = Some f \<and> i < j \<and> j < 100 \<and> 2 / 10 ^ 8 + (\<bar>f i\<bar> + \<bar>f j\<bar>) / 10 ^ 5 < f j - f i"
  then show "init tg d n g s a = Inl AssertionError"
    by (auto intro: init_rejects_increase)
next
  assume "(\<forall>x. a = Some x \<longrightarrow> 0 < x \<and> x < 1) \<and>
    (\<forall>f. s = Some f \<longrightarrow> (\<forall>i<100. 0 \<le> f i) \<and> (\<forall>i j. i \<le> j \<longrightarrow> j < 100 \<longrightarrow> f j \<le> f i))"
  then show "init tg d n g s a = Inr (initialise \<lparr>target = tg, D = d, nu2 = n, gamma2 = g,
            schedule = s, acc_star = a, t = 0, mu = None, L_C = None\<rparr>)"
    by (intro init_accepts) simp_all
next
  show "isl (init tg d n g s a) = isl (init tg d n' g' s a)"
    by (rule init_ignores_scale)
qed

theorem init_validation_witness:
  "init flat_target 1 1 1 None (Some 2) = Inl AssertionError \<and>
   init flat_target 1 1 1 (Some rising) None = Inl AssertionError \<and>
   init flat_target 1 1 1 (Some harmonic) (Some (234 / 1000)) =
     Inr (initialise \<lparr>target = flat_target, D = 1, nu2 = 1, gamma2 = 1, schedule = Some harmonic,
            acc_star = Some (234 / 1000), t = 0, mu = None, L_C = None\<rparr>)"
proof -
  have 1: "init flat_target 1 1 1 None (Some 2) = Inl AssertionError"
    using init_validation [where a = "Some 2" and s = None and tg = flat_target and d = 1
        and n = 1 and g = 1] by simp
  have r: "(4::nat) < 5 \<and> (5::nat) < 100 \<and>
      2 / 10 ^ 8 + (\<bar>rising 4\<bar> + \<bar>rising 5\<bar>) / 10 ^ 5 < rising 5 - rising 4"
    by (simp add: rising_def)
  have 2: "init flat_target 1 1 1 (Some rising) None = Inl AssertionError"
    using init_validation [where a = None and s = "Some rising" and tg = flat_target and d = 1
        and n = 1 and g = 1] r by blast
  have h: "(\<forall>i<100. 0 \<le> harmonic i) \<and> (\<forall>i j. i \<le> j \<longrightarrow> j < 100 \<longrightarrow> harmonic j \<le> harmonic i)"
    by (simp add: harmonic_def frac_le)
  have 3: "init flat_target 1 1 1 (Some harmonic) (Some (234 / 1000)) =
     Inr (initialise \<lparr>target = flat_target, D = 1, nu2 = 1, gamma2 = 1, schedule = Some harmonic,
            acc_star = Some (234 / 1000), t = 0, mu = None, L_C = None\<rparr>)"
    using init_validation [where a = "Some (234 / 1000)" and s = "Some harmonic"
        and tg = flat_target and d = 1 and n = 1 and g = 1] h by simp
  from 1 2 3 show ?thesis by simp
qed

lemma allclose_within:
  fixes l :: "real list"
  assumes "\<forall>x\<in>set l. 0 \<le> x \<and> x \<le> 1 / 10 ^ 8"
  shows "allclose (rev (sort l)) l"
  unfolding allclose_def list_all2_conv_all_nth
proof (intro conjI allI impI)
  show "length (rev (sort l)) = length l" by simp
next
  fix i assume "i < length (rev (sort l))"
  then have i: "i < length l" by simp
  then have "rev (sort l) ! i \<in> set (rev (sort l))" by (intro nth_mem) simp
  then have a: "rev (sort l) ! i \<in> set l" by simp
  have b: "l ! i \<in> set l" using i by simp
  from a b assms have "\<bar>rev (sort l) ! i - l ! i\<bar> \<le> 1 / 10 ^ 8"
    by (auto simp: abs_le_iff) (smt (verit))+
  moreover have "0 \<le> 1 / 10 ^ 5 * \<bar>l ! i\<bar>" by simp
  ultimately show "\<bar>rev (sort l) ! i - l ! i\<bar> \<le> 1 / 10 ^ 8 + 1 / 10 ^ 5 * \<bar>l ! i\<bar>"
    by linarith
qed

text \<open>
  The claim as stated fails twice: the constructor accepts negative \<open>nu2\<close> and
  \<open>gamma2\<close>, and it accepts a schedule whose second weight exceeds the first by
  less than the tolerance.
\<close>

theorem init_accepts_unvalidated:
  "init flat_target 1 (- 1) (- 1) None None =
     Inr \<lparr>target = flat_target, D = 1, nu2 = - 1, gamma2 = - 1, schedule = None,
          acc_star = None, t = 0, mu = None, L_C = None\<rparr> \<and>
   late_rise 0 < late_rise 1 \<and>
   \<not> isl (init flat_target 1 1 1 (Some late_rise) None)"
proof -
  have 1: "init flat_target 1 (- 1) (- 1) None None =
     Inr \<lparr>target = flat_target, D = 1, nu2 = - 1, gamma2 = - 1, schedule = None,
          acc_star = None, t = 0, mu = None, L_C = None\<rparr>"
    by (simp add: init_def initialise_def Let_def)
  have b: "\<forall>x\<in>set (map late_rise [0..<100]). 0 \<le> x \<and> x \<le> 1 / 10 ^ 8"
    by (auto simp: late_rise_def)
  then have "list_all (\<lambda>x. x \<ge> 0) (map late_rise [0..<100])"
    unfolding list_all_iff by blast
  moreover have "allclose (rev (sort (map late_rise [0..<100]))) (map late_rise [0..<100])"
    using b by (rule allclose_within)
  ultimately have 2: "\<not> isl (init flat_target 1 1 1 (Some late_rise) None)"
    by (simp add: init_def Let_def)
  from 1 2 show ?thesis by (simp add: late_rise_def)
qed

subsection \<open>The mean update\<close>

lemma length_zeros: "length (zeros n) = n"
  by (simp add: zeros_def)

lemma is_square_scaled_eye: "is_square n (mscale c (eye n))"
  by (simp add: is_square_def mscale_def eye_def vscale_def list_all_iff)

lemma blend_map2:
  "vadd (vscale (1 - l) m) (vscale l u) = map2 (\<lambda>a x. (1 - l) * a + l * x) m u"
  by (simp add: vadd_def vscale_def zip_map_map map_zip_map split_def)

text \<open>
  C4, as the code has it. For a weight in \<open>[0, 1]\<close> and a previous mean and factor that
  are absent or of the shape of the new point \<open>u\<close>, both strategies compute the mean
  \<open>(1 - lmbda) * old + lmbda * u\<close> componentwise, where \<open>old\<close> is the previous mean when
  the mean and the factor are both present, and the zero vector when either of them is
  absent. The efficient strategy returns it; the fallback strategy returns it when the
  dense factorisation succeeds and raises \<^verbatim>\<open>LinAlgError\<close> otherwise.
\<close>

theorem updated_mean_rule:
  assumes "0 \<le> lmbda \<and> lmbda \<le> 1"
    and "absent = (mean = None \<or> cov_L = None)"
    and "old = (if absent then zeros (length u) else the mean)"
    and "fac = (if absent then mscale n (eye (length u)) else the cov_L)"
    and "absent \<or> (length old = length u \<and> is_square (length u) fac)"
  shows "rank_one_update_mean_covariance_cholesky_lmbda cu u lmbda mean cov_L n g =
           Inr (map2 (\<lambda>a x. (1 - lmbda) * a + lmbda * x) old u,
                efficient_update_cov_L cu u lmbda old fac n g) \<and>
         rank_update_mean_covariance_cholesky_lmbda_naive chol u lmbda mean cov_L n g =
           (case chol (naive_update_cov u lmbda old fac n g) of
              None \<Rightarrow> Inl LinAlgError
            | Some L \<Rightarrow> Inr (map2 (\<lambda>a x. (1 - lmbda) * a + lmbda * x) old u, L)) \<and>
         length old = length u"
  using assms
  by (auto simp: rank_one_update_mean_covariance_cholesky_lmbda_def
      rank_update_mean_covariance_cholesky_lmbda_naive_def Let_def blend_map2 length_zeros
      split: option.splits)

lemmas eval_defs = rank_one_update_mean_covariance_cholesky_lmbda_def
  rank_update_mean_covariance_cholesky_lmbda_naive_def efficient_update_cov_L_def
  naive_update_cov_def Let_def is_square_def
  vadd_def vscale_def vsub_def mscale_def mT_def madd_def mdot_def vdot_def outer_def eye_def
  zeros_def isotropic_updates_def cholupdate_1d_def cholesky_1d_def

theorem updated_mean_rule_witness:
  "rank_one_update_mean_covariance_cholesky_lmbda cholupdate_1d [0] (1 / 2) (Some [2]) (Some [[1]]) 1 None
     = Inr ([1], efficient_update_cov_L cholupdate_1d [0] (1 / 2) [2] [[1]] 1 None) \<and>
   rank_update_mean_covariance_cholesky_lmbda_naive cholesky_1d [0] (1 / 2) None None 1 None
     = Inr ([0], [[sqrt (1 / 2)]])"
proof -
  have 1: "rank_one_update_mean_covariance_cholesky_lmbda cholupdate_1d [0] (1 / 2) (Some [2]) (Some [[1]]) 1 None
     = Inr ([1], efficient_update_cov_L cholupdate_1d [0] (1 / 2) [2] [[1]] 1 None)"
    using updated_mean_rule [where lmbda = "1 / 2" and mean = "Some [2]" and cov_L = "Some [[1]]"
        and absent = False and old = "[2]" and fac = "[[1]]" and u = "[0]" and n = 1 and g = None
        and cu = cholupdate_1d]
    by (simp add: is_square_def)
  have 2: "rank_update_mean_covariance_cholesky_lmbda_naive cholesky_1d [0] (1 / 2) None None 1 None
     = Inr ([0], [[sqrt (1 / 2)]])"
    using updated_mean_rule [where lmbda = "1 / 2" and mean = None and cov_L = None
        and absent = True and old = "[0]" and fac = "[[1]]" and u = "[0]" and n = 1 and g = None
        and chol = cholesky_1d]
    by (simp add: zeros_def mscale_def eye_def vscale_def naive_update_cov_def Let_def
        vsub_def mdot_def mT_def vdot_def madd_def vadd_def outer_def cholesky_1d_def)
  from 1 2 show ?thesis by simp
qed

text \<open>
  The claim as stated fails for a mean that is present while the factor is absent: the
  mean is then replaced by zero before the update, so that the previous mean \<open>[2]\<close>, the
  new point \<open>[0]\<close> and the weight one half give \<open>[0]\<close>, not \<open>[1]\<close>.
\<close>

theorem mean_reset_when_factor_absent:
  "map_sum id fst (rank_one_update_mean_covariance_cholesky_lmbda cholupdate_1d [0] (1 / 2)
       (Some [2]) None 1 None) = Inr [0] \<and>
   map_sum id fst (rank_update_mean_covariance_cholesky_lmbda_naive cholesky_1d [0] (1 / 2)
       (Some [2]) None 1 None) = Inr [0] \<and>
   map2 (\<lambda>a x. (1 - 1 / 2) * a + 1 / 2 * x) [2] [0] = [1::real]"
  by (simp add: eval_defs)

subsection \<open>The two strategies compared\<close>

text \<open>
  C1 fails on the code. The efficient strategy adds \<open>lmbda * gamma2 * I\<close> to the
  covariance (each basis vector is scaled by \<open>sqrt lmbda\<close>); the fallback strategy adds
  \<open>gamma2 * I\<close>, without the weight. In one dimension, from the mean \<open>[0]\<close> and the factor
  \<open>[[1]]\<close>, with the new point \<open>[0]\<close>, the weight one half, \<open>nu2 = 1\<close> and \<open>gamma2 = 1\<close>,
  the efficient strategy returns the factor \<open>[[1]]\<close> of the covariance \<open>[[1]]\<close>, which
  is what the rule of the claim gives, and the fallback strategy the factor
  \<open>[[sqrt (3 / 2)]]\<close> of the covariance \<open>[[3 / 2]]\<close>.
\<close>

theorem isotropic_term_differs:
  "rank_one_update_mean_covariance_cholesky_lmbda cholupdate_1d [0] (1 / 2) (Some [0]) (Some [[1]]) 1 (Some 1)
     = Inr ([0], [[1]]) \<and>
   rank_update_mean_covariance_cholesky_lmbda_naive cholesky_1d [0] (1 / 2) (Some [0]) (Some [[1]]) 1 (Some 1)
     = Inr ([0], [[sqrt (3 / 2)]]) \<and>
   mdot [[1]] (mT [[1]]) = [[1]] \<and> mdot [[sqrt (3 / 2)]] (mT [[sqrt (3 / 2)]]) = [[3 / 2]] \<and>
   mdot [[1]] (mT [[1]]) \<noteq> mdot [[sqrt (3 / 2)]] (mT [[sqrt (3 / 2)]])"
  by (simp add: eval_defs)

lemma sqrt_16: "sqrt 16 = 4"
  using real_sqrt_abs [of 4] by simp

text \<open>
  C2 fails on the code. When the mean or the factor is absent, both strategies start
  from the zero mean and the factor \<open>nu2 * I\<close>, where the claim, and \<^verbatim>\<open>_initialise\<close>,
  have \<open>sqrt nu2 * I\<close>. With \<open>nu2 = 4\<close> and weight 0 both return the factor \<open>[[4]]\<close>;
  started from \<open>[[2]]\<close>, which is \<open>sqrt 4 * I\<close>, the update returns \<open>[[2]]\<close>.
\<close>

theorem first_term_factor:
  "rank_one_update_mean_covariance_cholesky_lmbda cholupdate_1d [0] 0 None None 4 None
     = Inr ([0], [[4]]) \<and>
   rank_update_mean_covariance_cholesky_lmbda_naive cholesky_1d [0] 0 None None 4 None
     = Inr ([0], [[4]]) \<and>
   rank_one_update_mean_covariance_cholesky_lmbda cholupdate_1d [0] 0 (Some [0]) (Some [[2]]) 4 None
     = Inr ([0], [[2]]) \<and>
   mscale (sqrt 4) (eye 1) = [[2]] \<and>
   L_C (initialise (am_scenario_d\<lparr>nu2 := 4\<rparr>)) = Some [[2]]"
  by (simp add: eval_defs sqrt_16 initialise_def am_scenario_d_def)

subsection \<open>The batch covariance\<close>

lemma mT_shape:
  assumes "Z \<noteq> []" and "list_all (\<lambda>r. length r = d) Z"
  shows "length (mT Z) = d" and "list_all (\<lambda>r. length r = length Z) (mT Z)"
  using assms by (auto simp: mT_def list_all_iff split: list.splits)

lemma mT_empty_rows: "list_all (\<lambda>r. length r = 0) Z \<Longrightarrow> mT Z = []"
  by (auto simp: mT_def split: list.splits)

lemma mdot_rows: "length (mdot A B) = length A"
  by (simp add: mdot_def)

lemma mdot_cols: "list_all (\<lambda>r. length r = length (mT B)) (mdot A B)"
  by (simp add: mdot_def list_all_iff)

lemma np_cov_square:
  assumes "length X = d" and "list_all (\<lambda>r. length r = k) X" and "0 < k"
  shows "is_square d (np_cov X)"
proof -
  define Xc where "Xc = map (\<lambda>row. map (\<lambda>x. x - sum_list row / real (case X of [] \<Rightarrow> 0 | r # _ \<Rightarrow> length r)) row) X"
  have len: "length Xc = d" using assms(1) by (simp add: Xc_def)
  have rows: "list_all (\<lambda>r. length r = k) Xc"
    using assms(2) by (simp add: Xc_def list_all_iff)
  have "length (mT (mT Xc)) = d"
  proof (cases "Xc = []")
    case True
    then show ?thesis using len by (simp add: mT_def)
  next
    case False
    from mT_shape [OF False rows] have a: "length (mT Xc) = k"
      and b: "list_all (\<lambda>r. length r = length Xc) (mT Xc)" by simp_all
    from a assms(3) have "mT Xc \<noteq> []" by auto
    from mT_shape(1) [OF this b] show ?thesis using len by simp
  qed
  then have "is_square d (mdot Xc (mT Xc))"
    using mdot_cols [of "mT Xc" Xc] len by (simp add: is_square_def mdot_rows)
  then show ?thesis
    by (simp add: np_cov_def Let_def Xc_def is_square_def mscale_def vscale_def list_all_iff)
qed

lemma is_square_madd:
  "is_square d A \<Longrightarrow> is_square d B \<Longrightarrow> is_square d (madd A B)"
  by (auto simp: is_square_def madd_def vadd_def list_all_iff set_zip)

lemma is_square_mscale: "is_square d A \<Longrightarrow> is_square d (mscale c A)"
  by (simp add: is_square_def mscale_def vscale_def list_all_iff)

lemma is_square_eye: "is_square d (eye d)"
  by (simp add: is_square_def eye_def list_all_iff)

lemma shape1_rows: "Z \<noteq> [] \<Longrightarrow> list_all (\<lambda>r. length r = d) Z \<Longrightarrow> shape1 Z = d"
  by (auto simp: shape1_def split: list.splits)

lemma batch_matrix_square:
  assumes "Z \<noteq> []" and "list_all (\<lambda>r. length r = d) Z"
  shows "is_square d (madd (mscale n (np_cov (mT Z))) (mscale g (eye (shape1 Z))))"
proof -
  have p: "0 < length Z" using assms(1) by simp
  have "is_square d (np_cov (mT Z))"
    using mT_shape(1) [OF assms] mT_shape(2) [OF assms] p by (rule np_cov_square)
  then show ?thesis
    using shape1_rows [OF assms] by (simp add: is_square_madd is_square_mscale is_square_eye)
qed

text \<open>
  C10, as the code has it. \<^verbatim>\<open>set_batch_covariance\<close> never looks at the configured
  dimension \<open>D\<close>: for a batch of two or more samples of any dimension \<open>d\<close> it raises no
  assertion error, its outcome is the same whatever \<open>D\<close> is, and the matrix it factorises
  is \<open>d \<times> d\<close>. The mean is replaced by the \<open>d\<close>-dimensional sample mean. The factor is
  replaced when the dense factorisation succeeds; when it raises, the error propagates
  and the factor is left as it was.
\<close>

theorem set_batch_covariance_dimension:
  assumes "2 \<le> length Z" and "list_all (\<lambda>r. length r = d) Z"
    and "M = madd (mscale (nu2 self) (np_cov (mT Z))) (mscale (gamma2 self) (eye d))"
  shows "is_square d M \<and> length (np_mean_axis0 Z) = d \<and>
         set_batch_covariance chol self Z =
           (case chol M of
              None \<Rightarrow> (Some LinAlgError, self\<lparr>mu := Some (np_mean_axis0 Z)\<rparr>)
            | Some L \<Rightarrow> (None, self\<lparr>mu := Some (np_mean_axis0 Z), L_C := Some L\<rparr>)) \<and>
         fst (set_batch_covariance chol self Z) \<noteq> Some AssertionError \<and>
         set_batch_covariance chol (self\<lparr>D := k\<rparr>) Z =
           map_prod id (\<lambda>s. s\<lparr>D := k\<rparr>) (set_batch_covariance chol self Z)"
proof -
  from assms(1) have ne: "Z \<noteq> []" by auto
  have s: "shape1 Z = d" using ne assms(2) by (rule shape1_rows)
  have 1: "is_square d M"
    using batch_matrix_square [OF ne assms(2), of "nu2 self" "gamma2 self"] by (simp add: assms(3) s)
  have 2: "length (np_mean_axis0 Z) = d"
    using mT_shape(1) [OF ne assms(2)] by (simp add: np_mean_axis0_def)
  have 3: "set_batch_covariance chol self Z =
           (case chol M of
              None \<Rightarrow> (Some LinAlgError, self\<lparr>mu := Some (np_mean_axis0 Z)\<rparr>)
            | Some L \<Rightarrow> (None, self\<lparr>mu := Some (np_mean_axis0 Z), L_C := Some L\<rparr>))"
    by (simp add: set_batch_covariance_def Let_def assms(3) s)
  have 4: "fst (set_batch_covariance chol self Z) \<noteq> Some AssertionError"
    by (simp add: 3 split: option.splits)
  have 5: "set_batch_covariance chol (self\<lparr>D := k\<rparr>) Z =
           map_prod id (\<lambda>s. s\<lparr>D := k\<rparr>) (set_batch_covariance chol self Z)"
  proof (cases "chol (madd (mscale (nu2 self) (np_cov (mT Z)))
                          (mscale (gamma2 self) (eye (shape1 Z))))")
    case None
    then show ?thesis by (simp add: set_batch_covariance_def Let_def)
  next
    case (Some L)
    then show ?thesis by (simp add: set_batch_covariance_def Let_def)
  qed
  show ?thesis
    apply (intro conjI)
        apply (rule 1)
       apply (rule 2)
      apply (rule 3)
     apply (rule 4)
    apply (rule 5)
    done
qed

theorem set_batch_covariance_dimension_witness:
  "set_batch_covariance cholesky_1d am_two_dim [[0], [2]]
     = (None, am_two_dim\<lparr>mu := Some [1], L_C := Some [[2]]\<rparr>) \<and>
   D (am_two_dim\<lparr>mu := Some [1], L_C := Some [[2]]\<rparr>) = 2"
proof -
  have m: "[[4]] = madd (mscale (nu2 am_two_dim) (np_cov (mT [[0], [2]])))
               (mscale (gamma2 am_two_dim) (eye 1))"
    by (simp add: am_two_dim_def np_cov_def mT_def Let_def madd_def mscale_def vscale_def
        vadd_def mdot_def vdot_def eye_def)
  have a: "np_mean_axis0 [[0], [2]] = [1]"
    by (simp add: np_mean_axis0_def mT_def)
  have l: "2 \<le> length [[0], [2::real]]" by simp
  have r: "list_all (\<lambda>r. length r = 1) [[0], [2::real]]" by simp
  have c: "cholesky_1d [[4]] = Some [[2]]" by (simp add: cholesky_1d_def)
  have "set_batch_covariance cholesky_1d am_two_dim [[0], [2]]
     = (None, am_two_dim\<lparr>mu := Some [1], L_C := Some [[2]]\<rparr>)"
    using set_batch_covariance_dimension [OF l r m, of cholesky_1d] by (simp add: a c)
  moreover have "D (am_two_dim\<lparr>mu := Some [1], L_C := Some [[2]]\<rparr>) = 2"
    by (simp add: am_two_dim_def)
  ultimately show ?thesis by simp
qed

text \<open>
  The claim as stated, that the call succeeds for every batch, fails for two equal
  samples without an exploration term: the matrix to factorise is zero.
\<close>

theorem set_batch_covariance_can_fail:
  "fst (set_batch_covariance cholesky_1d am_two_dim [[0], [0]]) = Some LinAlgError \<and>
   L_C (snd (set_batch_covariance cholesky_1d am_two_dim [[0], [0]])) = None"
  by (simp add: set_batch_covariance_def am_two_dim_def np_cov_def mT_def Let_def madd_def
      mscale_def vscale_def vadd_def mdot_def vdot_def eye_def shape1_def cholesky_1d_def)

subsection \<open>What each strategy computes\<close>

lemma is_square_rowD: "is_square n A \<Longrightarrow> i < n \<Longrightarrow> length (A ! i) = n"
  by (simp add: is_square_def list_all_length)

lemma is_square_lengthD: "is_square n A \<Longrightarrow> length A = n"
  by (simp add: is_square_def)

lemma is_squareI: "length A = n \<Longrightarrow> (\<And>i. i < n \<Longrightarrow> length (A ! i) = n) \<Longrightarrow> is_square n A"
  by (simp add: is_square_def list_all_length)

lemma mat_eqI:
  assumes "is_square n A" and "is_square n B"
    and "\<And>i j. i < n \<Longrightarrow> j < n \<Longrightarrow> A ! i ! j = B ! i ! j"
  shows "A = B"
proof (rule nth_equalityI)
  show "length A = length B" using assms(1,2) by (simp add: is_square_def)
next
  fix i assume "i < length A"
  then have i: "i < n" using assms(1) by (simp add: is_square_def)
  show "A ! i = B ! i"
  proof (rule nth_equalityI)
    show "length (A ! i) = length (B ! i)"
      using i assms(1,2) by (simp add: is_square_rowD)
  next
    fix j assume "j < length (A ! i)"
    then have "j < n" using i assms(1) by (simp add: is_square_rowD)
    with i show "A ! i ! j = B ! i ! j" by (rule assms(3))
  qed
qed

lemma nth_mscale:
  "is_square n A \<Longrightarrow> i < n \<Longrightarrow> j < n \<Longrightarrow> mscale c A ! i ! j = c * A ! i ! j"
  by (simp add: mscale_def vscale_def is_square_rowD is_square_lengthD)

lemma row_mscale: "i < length A \<Longrightarrow> mscale c A ! i = vscale c (A ! i)"
  by (simp add: mscale_def)

lemma nth_madd:
  "is_square n A \<Longrightarrow> is_square n B \<Longrightarrow> i < n \<Longrightarrow> j < n \<Longrightarrow>
   madd A B ! i ! j = A ! i ! j + B ! i ! j"
  by (simp add: madd_def vadd_def is_square_rowD is_square_lengthD)

lemma nth_outer:
  "i < length v \<Longrightarrow> j < length w \<Longrightarrow> outer v w ! i ! j = v ! i * w ! j"
  by (simp add: outer_def)

lemma nth_eye: "i < n \<Longrightarrow> j < n \<Longrightarrow> eye n ! i ! j = (if i = j then 1 else 0)"
  by (simp add: eye_def)

lemma is_square_outer: "length v = n \<Longrightarrow> is_square n (outer v v)"
  by (simp add: outer_def is_square_def list_all_iff)

lemma is_square_mT: "is_square n A \<Longrightarrow> is_square n (mT A)"
  by (cases A) (auto simp: mT_def is_square_def list_all_iff)

lemma mT_nonempty: "A \<noteq> [] \<Longrightarrow> mT A = map (\<lambda>j. map (\<lambda>row. row ! j) A) [0..<length (hd A)]"
  by (cases A) (simp_all add: mT_def)

lemma nth_mT:
  assumes "is_square n A" and "i < n" and "j < n"
  shows "mT A ! i ! j = A ! j ! i"
proof -
  have ne: "A \<noteq> []" using assms(1,2) by (auto simp: is_square_def)
  then have "hd A = A ! 0" by (simp add: hd_conv_nth)
  then have "length (hd A) = n" using assms(1,2) by (simp add: is_square_rowD)
  then show ?thesis
    using assms by (simp add: mT_nonempty [OF ne] is_square_lengthD)
qed

lemma mT_mT:
  assumes "is_square n A"
  shows "mT (mT A) = A"
proof (rule mat_eqI [of n])
  show "is_square n (mT (mT A))" using assms by (intro is_square_mT)
  show "is_square n A" by (rule assms)
next
  fix i j assume "i < n" "j < n"
  then show "mT (mT A) ! i ! j = A ! i ! j"
    using nth_mT [OF is_square_mT [OF assms], of i j] nth_mT [OF assms, of j i] by simp
qed

lemma mT_mscale:
  assumes "is_square n A"
  shows "mT (mscale c A) = mscale c (mT A)"
proof (rule mat_eqI [of n])
  show "is_square n (mT (mscale c A))" using assms by (intro is_square_mT is_square_mscale)
  show "is_square n (mscale c (mT A))" using assms by (intro is_square_mT is_square_mscale)
next
  fix i j assume ij: "i < n" "j < n"
  have "mT (mscale c A) ! i ! j = mscale c A ! j ! i"
    using ij by (intro nth_mT [OF is_square_mscale [OF assms]])
  also have "\<dots> = c * A ! j ! i"
    using ij by (intro nth_mscale [OF assms])
  also have "\<dots> = c * mT A ! i ! j"
    using ij by (simp add: nth_mT [OF assms])
  also have "\<dots> = mscale c (mT A) ! i ! j"
    using ij by (simp add: nth_mscale [OF is_square_mT [OF assms]])
  finally show "mT (mscale c A) ! i ! j = mscale c (mT A) ! i ! j" .
qed

lemma is_square_mdot: "is_square n A \<Longrightarrow> is_square n B \<Longrightarrow> is_square n (mdot A B)"
  using is_square_mT [of n B] by (simp add: mdot_def is_square_def list_all_iff)

lemma nth_mdot:
  "is_square n A \<Longrightarrow> is_square n B \<Longrightarrow> i < n \<Longrightarrow> j < n \<Longrightarrow>
   mdot A B ! i ! j = vdot (A ! i) (mT B ! j)"
  using is_square_mT [of n B] by (simp add: mdot_def is_square_def)

lemma vdot_vscale: "vdot (vscale c r) (vscale d s) = c * d * vdot r s"
proof -
  have "map2 (*) (map ((*) c) r) (map ((*) d) s) = map (\<lambda>z. (c * d) * z) (map2 (*) r s)"
    by (simp add: zip_map_map split_def)
  then show ?thesis
    by (simp add: vdot_def vscale_def sum_list_const_mult del: map_map)
qed

lemma mdot_mscale:
  assumes "is_square n A" and "is_square n B"
  shows "mdot (mscale c A) (mscale d B) = mscale (c * d) (mdot A B)"
proof (rule mat_eqI [of n])
  show "is_square n (mdot (mscale c A) (mscale d B))"
    using assms by (simp add: is_square_mdot is_square_mscale)
  show "is_square n (mscale (c * d) (mdot A B))"
    using assms by (simp add: is_square_mdot is_square_mscale)
next
  fix i j assume ij: "i < n" "j < n"
  have "mdot (mscale c A) (mscale d B) ! i ! j = vdot (mscale c A ! i) (mT (mscale d B) ! j)"
    using ij by (intro nth_mdot [of n] is_square_mscale assms)
  also have "\<dots> = vdot (vscale c (A ! i)) (vscale d (mT B ! j))"
    using ij is_square_lengthD [OF assms(1)] is_square_lengthD [OF is_square_mT [OF assms(2)]]
    by (simp add: mT_mscale [OF assms(2)] row_mscale)
  also have "\<dots> = c * d * mdot A B ! i ! j"
    using ij by (simp add: vdot_vscale nth_mdot [OF assms])
  also have "\<dots> = mscale (c * d) (mdot A B) ! i ! j"
    using ij by (simp add: nth_mscale [OF is_square_mdot [OF assms]])
  finally show "mdot (mscale c A) (mscale d B) ! i ! j = mscale (c * d) (mdot A B) ! i ! j" .
qed

lemma outer_vscale: "outer (vscale a v) (vscale a v) = mscale (a * a) (outer v v)"
  by (simp add: outer_def vscale_def mscale_def mult_ac)

lemma is_square_diag:
  "is_square n (map (\<lambda>i. map (\<lambda>j. if i = j \<and> i < k then (1::real) else 0) [0..<n]) [0..<n])"
  by (simp add: is_square_def list_all_iff)

lemma diag_full:
  "map (\<lambda>i. map (\<lambda>j. if i = j \<and> i < n then (1::real) else 0) [0..<n]) [0..<n] = eye n"
  by (simp add: eye_def)

lemma nth_basis:
  "i < n \<Longrightarrow> vscale c ((zeros n)[k := s]) ! i = (if i = k then c * s else 0)"
  by (simp add: vscale_def zeros_def nth_list_update)

lemma length_basis: "length (vscale c ((zeros n)[k := s])) = n"
  by (simp add: vscale_def zeros_def)

lemma upper_triangular_square: "upper_triangular n R \<Longrightarrow> is_square n R"
  by (simp add: upper_triangular_def)

lemma gram_square: "is_square n R \<Longrightarrow> is_square n (mdot (mT R) R)"
  by (intro is_square_mdot is_square_mT)

lemma isotropic_updates_gram:
  assumes c: "cholupdate_contract n cu" and l: "0 \<le> l" and g: "0 \<le> g"
    and R: "upper_triangular n R" and k: "k \<le> n"
  defines "step \<equiv> (\<lambda>R d. cu R (vscale (sqrt l) ((zeros n)[d := sqrt g])))"
  shows "upper_triangular n (foldl step R [0..<k]) \<and>
         mdot (mT (foldl step R [0..<k])) (foldl step R [0..<k]) =
           madd (mdot (mT R) R)
             (mscale (l * g) (map (\<lambda>i. map (\<lambda>j. if i = j \<and> i < k then 1 else 0) [0..<n]) [0..<n]))"
  using k
proof (induction k)
  case 0
  define D0 where "D0 = map (\<lambda>i. map (\<lambda>j. if i = j \<and> i < (0::nat) then (1::real) else 0) [0..<n]) [0..<n]"
  have sq: "is_square n (mdot (mT R) R)"
    using R by (intro gram_square upper_triangular_square)
  have sqD: "is_square n D0" unfolding D0_def by (rule is_square_diag)
  have "mdot (mT R) R = madd (mdot (mT R) R) (mscale (l * g) D0)"
  proof (rule mat_eqI [of n])
    show "is_square n (mdot (mT R) R)" by (rule sq)
    show "is_square n (madd (mdot (mT R) R) (mscale (l * g) D0))"
      by (intro is_square_madd is_square_mscale sqD sq)
  next
    fix i j assume ij: "i < n" "j < n"
    have z: "D0 ! i ! j = 0" using ij by (simp add: D0_def)
    show "mdot (mT R) R ! i ! j = madd (mdot (mT R) R) (mscale (l * g) D0) ! i ! j"
      using ij z
      by (simp add: nth_madd [OF sq is_square_mscale [OF sqD]] nth_mscale [OF sqD])
  qed
  then have "mdot (mT R) R = madd (mdot (mT R) R)
      (mscale (l * g) (map (\<lambda>i. map (\<lambda>j. if i = j \<and> i < 0 then 1 else 0) [0..<n]) [0..<n]))"
    by (simp only: D0_def)
  with R show ?case by simp
next
  case (Suc k)
  define Rk where "Rk = foldl step R [0..<k]"
  define e where "e = vscale (sqrt l) ((zeros n)[k := sqrt g])"
  define Dk where "Dk = map (\<lambda>i. map (\<lambda>j. if i = j \<and> i < k then (1::real) else 0) [0..<n]) [0..<n]"
  define Dk' where "Dk' = map (\<lambda>i. map (\<lambda>j. if i = j \<and> i < Suc k then (1::real) else 0) [0..<n]) [0..<n]"
  from Suc have ih: "upper_triangular n Rk"
    "mdot (mT Rk) Rk = madd (mdot (mT R) R) (mscale (l * g) Dk)"
    by (simp_all add: Rk_def Dk_def)
  have next_R: "foldl step R [0..<Suc k] = cu Rk e"
    by (simp add: Rk_def e_def step_def)
  have len: "length e = n" by (simp add: e_def length_basis)
  from c ih(1) len have ut: "upper_triangular n (cu Rk e)"
    and gr: "mdot (mT (cu Rk e)) (cu Rk e) = madd (mdot (mT Rk) Rk) (outer e e)"
    by (simp_all add: cholupdate_contract_def)
  have sq: "is_square n (mdot (mT R) R)"
    using R by (intro gram_square upper_triangular_square)
  have sqD: "is_square n Dk" "is_square n Dk'"
    unfolding Dk_def Dk'_def by (rule is_square_diag)+
  have sqO: "is_square n (outer e e)" using len by (rule is_square_outer)
  have "madd (madd (mdot (mT R) R) (mscale (l * g) Dk)) (outer e e)
      = madd (mdot (mT R) R) (mscale (l * g) Dk')"
  proof (rule mat_eqI [of n])
    show "is_square n (madd (madd (mdot (mT R) R) (mscale (l * g) Dk)) (outer e e))"
      by (intro is_square_madd is_square_mscale sq sqD sqO)
    show "is_square n (madd (mdot (mT R) R) (mscale (l * g) Dk'))"
      by (intro is_square_madd is_square_mscale sq sqD)
  next
    fix i j assume ij: "i < n" "j < n"
    have a: "madd (madd (mdot (mT R) R) (mscale (l * g) Dk)) (outer e e) ! i ! j
        = mdot (mT R) R ! i ! j + l * g * Dk ! i ! j + e ! i * e ! j"
      using ij len
      by (simp add: nth_madd [OF is_square_madd [OF sq is_square_mscale [OF sqD(1)]] sqO]
          nth_madd [OF sq is_square_mscale [OF sqD(1)]] nth_mscale [OF sqD(1)] nth_outer)
    have b: "madd (mdot (mT R) R) (mscale (l * g) Dk') ! i ! j
        = mdot (mT R) R ! i ! j + l * g * Dk' ! i ! j"
      using ij by (simp add: nth_madd [OF sq is_square_mscale [OF sqD(2)]] nth_mscale [OF sqD(2)])
    have ee: "e ! i * e ! j = (if i = k \<and> j = k then l * g else 0)"
      using ij l g by (simp add: e_def nth_basis mult_ac flip: real_sqrt_mult)
    have d: "Dk' ! i ! j = Dk ! i ! j + (if i = k \<and> j = k then 1 else 0)"
      using ij by (auto simp: Dk_def Dk'_def)
    show "madd (madd (mdot (mT R) R) (mscale (l * g) Dk)) (outer e e) ! i ! j
        = madd (mdot (mT R) R) (mscale (l * g) Dk') ! i ! j"
      unfolding a b ee d by (simp add: algebra_simps)
  qed
  with ut gr ih(2) next_R show ?case by (simp add: Dk'_def)
qed

lemma upper_triangular_mscale:
  assumes "upper_triangular n R"
  shows "upper_triangular n (mscale c R)"
proof -
  have sq: "is_square n R" using assms by (rule upper_triangular_square)
  have "mscale c R ! i ! j = 0" if "i < n" "j < i" for i j
  proof -
    have "mscale c R ! i ! j = c * R ! i ! j"
      using that by (intro nth_mscale [OF sq]) simp_all
    also have "R ! i ! j = 0" using assms that by (simp add: upper_triangular_def)
    finally show ?thesis by simp
  qed
  then show ?thesis
    using is_square_mscale [OF sq, of c] by (simp add: upper_triangular_def)
qed

lemma length_vsub: "length u = n \<Longrightarrow> length m = n \<Longrightarrow> length (vsub u m) = n"
  by (simp add: vsub_def)

text \<open>
  What the efficient strategy computes, for a rank-one update that meets its contract:
  the returned factor \<open>L'\<close> has \<open>L' L'\<^sup>T = (1 - l) L L\<^sup>T + l nu v v\<^sup>T\<close>, plus
  \<open>l g I\<close> when \<open>gamma2 = g\<close> is given, where \<open>v = u - m\<close>.
\<close>

lemma efficient_gram:
  assumes c: "cholupdate_contract n cu"
    and l: "0 \<le> l" "l \<le> 1" and nu: "0 \<le> nu" and g: "0 \<le> g"
    and u: "length u = n" and m: "length m = n"
    and L: "is_square n L" "upper_triangular n (mT L)"
  shows "mdot (efficient_update_cov_L cu u l m L nu None)
              (mT (efficient_update_cov_L cu u l m L nu None)) =
           madd (mscale (1 - l) (mdot L (mT L)))
                (mscale (l * nu) (outer (vsub u m) (vsub u m)))"
    and "mdot (efficient_update_cov_L cu u l m L nu (Some g))
              (mT (efficient_update_cov_L cu u l m L nu (Some g))) =
           madd (madd (mscale (1 - l) (mdot L (mT L)))
                      (mscale (l * nu) (outer (vsub u m) (vsub u m))))
                (mscale (l * g) (eye n))"
proof -
  define R0 where "R0 = mscale (sqrt (1 - l)) (mT L)"
  define v1 where "v1 = vscale (sqrt l * sqrt nu) (vsub u m)"
  define R1 where "R1 = cu R0 v1"
  define Rn where "Rn = isotropic_updates cu n l g R1"
  have ut0: "upper_triangular n R0"
    unfolding R0_def using L(2) by (rule upper_triangular_mscale)
  have "mT R0 = mscale (sqrt (1 - l)) L"
    unfolding R0_def by (simp add: mT_mscale [OF is_square_mT [OF L(1)]] mT_mT [OF L(1)])
  then have "mdot (mT R0) R0 = mscale (sqrt (1 - l) * sqrt (1 - l)) (mdot L (mT L))"
    unfolding R0_def by (simp add: mdot_mscale [OF L(1) is_square_mT [OF L(1)]])
  then have g0: "mdot (mT R0) R0 = mscale (1 - l) (mdot L (mT L))"
    using l(2) by simp
  have len1: "length v1 = n"
    by (simp add: v1_def vscale_def length_vsub [OF u m])
  have "outer v1 v1 = mscale ((sqrt l * sqrt nu) * (sqrt l * sqrt nu)) (outer (vsub u m) (vsub u m))"
    unfolding v1_def by (rule outer_vscale)
  also have "(sqrt l * sqrt nu) * (sqrt l * sqrt nu) = l * nu"
    using l(1) nu by (simp add: mult_ac flip: real_sqrt_mult)
  finally have o1: "outer v1 v1 = mscale (l * nu) (outer (vsub u m) (vsub u m))" .
  from c ut0 len1 have ut1: "upper_triangular n R1"
    and "mdot (mT R1) R1 = madd (mdot (mT R0) R0) (outer v1 v1)"
    by (simp_all add: cholupdate_contract_def R1_def)
  then have g1: "mdot (mT R1) R1 = madd (mscale (1 - l) (mdot L (mT L)))
                (mscale (l * nu) (outer (vsub u m) (vsub u m)))"
    by (simp add: g0 o1)
  have sq1: "is_square n R1" using ut1 by (rule upper_triangular_square)
  have e1: "efficient_update_cov_L cu u l m L nu None = mT R1"
    by (simp add: efficient_update_cov_L_def Let_def R1_def R0_def v1_def)
  show "mdot (efficient_update_cov_L cu u l m L nu None)
              (mT (efficient_update_cov_L cu u l m L nu None)) =
           madd (mscale (1 - l) (mdot L (mT L)))
                (mscale (l * nu) (outer (vsub u m) (vsub u m)))"
    by (simp add: e1 mT_mT [OF sq1] g1)
  from isotropic_updates_gram [OF c l(1) g ut1 order_refl]
  have utn: "upper_triangular n Rn"
    and gn: "mdot (mT Rn) Rn = madd (mdot (mT R1) R1) (mscale (l * g) (eye n))"
    by (simp_all add: Rn_def isotropic_updates_def diag_full)
  have sqn: "is_square n Rn" using utn by (rule upper_triangular_square)
  have en: "efficient_update_cov_L cu u l m L nu (Some g) = mT Rn"
    by (simp add: efficient_update_cov_L_def Let_def Rn_def R1_def R0_def v1_def u)
  show "mdot (efficient_update_cov_L cu u l m L nu (Some g))
              (mT (efficient_update_cov_L cu u l m L nu (Some g))) =
           madd (madd (mscale (1 - l) (mdot L (mT L)))
                      (mscale (l * nu) (outer (vsub u m) (vsub u m))))
                (mscale (l * g) (eye n))"
    by (simp add: en mT_mT [OF sqn] gn g1)
qed

text \<open>
  What the fallback strategy factorises: \<open>(1 - l) L L\<^sup>T + l nu v v\<^sup>T\<close>, plus \<open>g I\<close>,
  without the weight, when \<open>gamma2 = g\<close> is given.
\<close>

lemma naive_cov:
  assumes u: "length u = n" and m: "length m = n" and L: "is_square n L"
  shows "naive_update_cov u l m L nu None =
           madd (mscale (1 - l) (mdot L (mT L)))
                (mscale (l * nu) (outer (vsub u m) (vsub u m)))"
    and "naive_update_cov u l m L nu (Some g) =
           madd (madd (mscale (1 - l) (mdot L (mT L)))
                      (mscale (l * nu) (outer (vsub u m) (vsub u m))))
                (mscale g (eye n))"
proof -
  have "is_square n (madd (mscale (1 - l) (mdot L (mT L)))
                (mscale (l * nu) (outer (vsub u m) (vsub u m))))"
    by (intro is_square_madd is_square_mscale is_square_mdot is_square_mT L
        is_square_outer length_vsub u m)
  then have "length (madd (mscale (1 - l) (mdot L (mT L)))
                (mscale (l * nu) (outer (vsub u m) (vsub u m)))) = n"
    by (rule is_square_lengthD)
  then show "naive_update_cov u l m L nu (Some g) =
           madd (madd (mscale (1 - l) (mdot L (mT L)))
                      (mscale (l * nu) (outer (vsub u m) (vsub u m))))
                (mscale g (eye n))"
    by (simp add: naive_update_cov_def Let_def)
  show "naive_update_cov u l m L nu None =
           madd (mscale (1 - l) (mdot L (mT L)))
                (mscale (l * nu) (outer (vsub u m) (vsub u m)))"
    by (simp add: naive_update_cov_def Let_def)
qed

text \<open>
  Hence the two covariances differ in every dimension from one on, whenever the weight
  is below one and \<open>gamma2\<close> is positive.
\<close>

lemma strategies_differ:
  assumes c: "cholupdate_contract n cu"
    and l: "0 \<le> l" "l < 1" and nu: "0 \<le> nu" and g: "0 < g" and n: "0 < n"
    and u: "length u = n" and m: "length m = n"
    and L: "is_square n L" "upper_triangular n (mT L)"
  shows "mdot (efficient_update_cov_L cu u l m L nu (Some g))
              (mT (efficient_update_cov_L cu u l m L nu (Some g)))
         \<noteq> naive_update_cov u l m L nu (Some g)"
proof
  define X where "X = madd (mscale (1 - l) (mdot L (mT L)))
                (mscale (l * nu) (outer (vsub u m) (vsub u m)))"
  have sqX: "is_square n X"
    unfolding X_def
    by (intro is_square_madd is_square_mscale is_square_mdot is_square_mT L
        is_square_outer length_vsub u m)
  assume "mdot (efficient_update_cov_L cu u l m L nu (Some g))
              (mT (efficient_update_cov_L cu u l m L nu (Some g)))
         = naive_update_cov u l m L nu (Some g)"
  then have "madd X (mscale (l * g) (eye n)) = madd X (mscale g (eye n))"
    using efficient_gram(2) [OF c l(1) _ nu _ u m L, of g] naive_cov(2) [OF u m L(1), of l nu g] l(2) g
    by (simp add: X_def)
  then have "madd X (mscale (l * g) (eye n)) ! 0 ! 0 = madd X (mscale g (eye n)) ! 0 ! 0"
    by simp
  then have "l * g = g"
    using n by (simp add: nth_madd [OF sqX is_square_mscale [OF is_square_eye]]
        nth_mscale [OF is_square_eye] nth_eye)
  with l(2) g show False by simp
qed

text \<open>
  With the mean or the factor absent, both strategies behave as if called with the zero
  mean and the factor \<open>nu2 * I\<close>.
\<close>

lemma first_term_start:
  assumes "mean = None \<or> cov_L = None"
  shows "rank_one_update_mean_covariance_cholesky_lmbda cu u l mean cov_L nu g =
           rank_one_update_mean_covariance_cholesky_lmbda cu u l
             (Some (zeros (length u))) (Some (mscale nu (eye (length u)))) nu g"
    and "rank_update_mean_covariance_cholesky_lmbda_naive chol u l mean cov_L nu g =
           rank_update_mean_covariance_cholesky_lmbda_naive chol u l
             (Some (zeros (length u))) (Some (mscale nu (eye (length u)))) nu g"
  using assms
  by (auto simp: rank_one_update_mean_covariance_cholesky_lmbda_def
      rank_update_mean_covariance_cholesky_lmbda_naive_def Let_def length_zeros
      is_square_scaled_eye)

text \<open>
  The contract is met in one dimension by \<open>cholupdate_1d\<close>, and the two covariances
  then differ at the weight one half.
\<close>

lemma square_1: "is_square 1 R \<Longrightarrow> \<exists>r. R = [[r]]"
  by (cases R; cases "hd R") (auto simp: is_square_def length_Suc_conv)

lemma cholupdate_1d_contract: "cholupdate_contract 1 cholupdate_1d"
  unfolding cholupdate_contract_def
proof (intro allI impI)
  fix R :: mat and x :: vec assume a: "upper_triangular 1 R \<and> length x = 1"
  then obtain r where R: "R = [[r]]"
    using square_1 [of R] by (auto simp: upper_triangular_def)
  from a obtain y where x: "x = [y]"
    by (cases x) auto
  have "sqrt (r\<^sup>2 + y\<^sup>2) * sqrt (r\<^sup>2 + y\<^sup>2) = r * r + y * y"
    by (simp add: power2_eq_square)
  then show "upper_triangular 1 (cholupdate_1d R x) \<and>
        mdot (mT (cholupdate_1d R x)) (cholupdate_1d R x) = madd (mdot (mT R) R) (outer x x)"
    by (simp add: R x cholupdate_1d_def upper_triangular_def is_square_def mdot_def mT_def
        vdot_def madd_def vadd_def outer_def)
qed

lemma strategies_differ_1d:
  "mdot (efficient_update_cov_L cholupdate_1d [0] (1 / 2) [0] [[1]] 1 (Some 1))
        (mT (efficient_update_cov_L cholupdate_1d [0] (1 / 2) [0] [[1]] 1 (Some 1)))
   \<noteq> naive_update_cov [0] (1 / 2) [0] [[1]] 1 (Some 1)"
  by (rule strategies_differ [OF cholupdate_1d_contract])
    (simp_all add: is_square_def upper_triangular_def mT_def)

end
